theory Spec2Isabelle
  imports Complex_Main "HOL-Library.Sublist"
begin

section \<open>Python values shared by the models\<close>

text \<open>Exceptions the modelled code can raise; a fallible function returns
  \<open>py_error + 'a\<close> with \<open>Inl\<close> for the raised exception.\<close>

datatype py_error =
    AssertionError string
  | KeyError string
  | TypeError
  | ImportError string
  | NameError string
  | RuntimeError string
  | IndexError
  | ZeroDivisionError
  | FileNotFoundError

text \<open>Truth value of an optional string (\<open>None\<close> and the empty string are falsy).\<close>

definition truthy :: "string option \<Rightarrow> bool" where
  "truthy s = (case s of None \<Rightarrow> False | Some t \<Rightarrow> t \<noteq> [])"

section \<open>\<open>lie_vae/main.py\<close>: the epoch loop with early stopping\<close>

text \<open>The command line arguments the epoch loop reads (\<open>parse_args\<close>).\<close>

record loop_args =
  name :: "string option"
  save_dir :: "string option"
  max_early_stop :: "int option"
  continue_epoch :: int
  epochs :: int

text \<open>Lines 25-27: a given \<open>--name\<close> overrides the save directory.\<close>

definition effective_save_dir :: "loop_args \<Rightarrow> string option" where
  "effective_save_dir args =
     (case name args of Some n \<Rightarrow> Some (''outputs/'' @ n) | None \<Rightarrow> save_dir args)"

text \<open>The state of the loop. The experiment object is code of \<open>lie_vae.experiments\<close>;
  its \<open>train\<close> method and its \<open>best_value\<close> attribute are parameters of the model.
  Writing the checkpoint is recorded as the epoch appended to \<open>checkpoints\<close>;
  \<open>break_epoch\<close> is the epoch whose iteration executed \<open>break\<close>.\<close>

record 'e loop_state =
  experiment_obj :: 'e
  early_stop_counter :: int
  checkpoints :: "int list"
  break_epoch :: "int option"

text \<open>One iteration of the \<open>for epoch in range(...)\<close> body, lines 134-146.\<close>

definition epoch_body ::
  "('e \<Rightarrow> int \<Rightarrow> 'e) \<Rightarrow> ('e \<Rightarrow> 'v) \<Rightarrow> string option \<Rightarrow> int option \<Rightarrow> int
   \<Rightarrow> 'e loop_state \<Rightarrow> 'e loop_state" where
  "epoch_body train best_value sd mes epoch st =
     (let previous_best_value = best_value (experiment_obj st);
          ex = train (experiment_obj st) epoch;
          st1 = st\<lparr>experiment_obj := ex\<rparr>
      in if truthy sd then
           if mes = None \<or> previous_best_value \<noteq> best_value ex
           then st1\<lparr>checkpoints := checkpoints st1 @ [epoch]\<rparr>
           else if mes \<noteq> None \<and> early_stop_counter st1 < the mes
           then st1\<lparr>early_stop_counter := early_stop_counter st1 + 1\<rparr>
           else st1\<lparr>break_epoch := Some epoch\<rparr>
         else st1)"

fun epoch_loop ::
  "('e \<Rightarrow> int \<Rightarrow> 'e) \<Rightarrow> ('e \<Rightarrow> 'v) \<Rightarrow> string option \<Rightarrow> int option \<Rightarrow> int list
   \<Rightarrow> 'e loop_state \<Rightarrow> 'e loop_state" where
  "epoch_loop train best_value sd mes [] st = st"
| "epoch_loop train best_value sd mes (epoch # rest) st =
     (let st' = epoch_body train best_value sd mes epoch st
      in if break_epoch st' \<noteq> None then st'
         else epoch_loop train best_value sd mes rest st')"

text \<open>Lines 132-146: the counter starts at 0 and the loop runs over
  \<open>range(args.continue_epoch, args.epochs)\<close>.\<close>

definition epoch_range :: "loop_args \<Rightarrow> int list" where
  "epoch_range args = [continue_epoch args..epochs args - 1]"

definition initial_state :: "'e \<Rightarrow> 'e loop_state" where
  "initial_state ex =
     \<lparr>experiment_obj = ex, early_stop_counter = 0, checkpoints = [], break_epoch = None\<rparr>"

definition main_loop ::
  "('e \<Rightarrow> int \<Rightarrow> 'e) \<Rightarrow> ('e \<Rightarrow> 'v) \<Rightarrow> loop_args \<Rightarrow> 'e \<Rightarrow> 'e loop_state" where
  "main_loop train best_value args ex =
     epoch_loop train best_value (effective_save_dir args) (max_early_stop args)
       (epoch_range args) (initial_state ex)"

text \<open>For stating the loop's behaviour: the experiment as it is before the epoch at
  each position of an epoch list, and the positions whose epoch leaves
  \<open>best_value\<close> unchanged (the non-improving epochs), had every epoch been trained.\<close>

fun stale :: "('e \<Rightarrow> int \<Rightarrow> 'e) \<Rightarrow> ('e \<Rightarrow> 'v) \<Rightarrow> int list \<Rightarrow> 'e \<Rightarrow> bool list" where
  "stale train best_value [] ex = []"
| "stale train best_value (epoch # rest) ex =
     (best_value ex = best_value (train ex epoch))
       # stale train best_value rest (train ex epoch)"

definition stale_before :: "bool list \<Rightarrow> nat \<Rightarrow> nat" where
  "stale_before flags i = length (filter (\<lambda>b. b) (take i flags))"

definition run_flags :: "('e \<Rightarrow> int \<Rightarrow> 'e) \<Rightarrow> ('e \<Rightarrow> 'v) \<Rightarrow> loop_args \<Rightarrow> 'e \<Rightarrow> bool list" where
  "run_flags train best_value args ex = stale train best_value (epoch_range args) ex"

text \<open>A concrete run: five epochs, of which only epoch 1 improves, with
  \<open>--max_early_stop 1\<close>.\<close>

definition demo_args :: loop_args where
  "demo_args = \<lparr>name = None, save_dir = Some ''out'', max_early_stop = Some 1,
                continue_epoch = 0, epochs = 5\<rparr>"

definition demo_train :: "int \<Rightarrow> int \<Rightarrow> int" where
  "demo_train x epoch = (if epoch = 1 then x + 1 else x)"

definition best_value_demo :: "int \<Rightarrow> int" where
  "best_value_demo x = x"

section \<open>The fragment of Python's \<open>re\<close> module the datasets use\<close>

text \<open>The constructs that occur in the patterns of \<open>datasets.py\<close> and
  \<open>supervised_experiment.py\<close>: literal characters, character sets with ranges,
  sequencing, the greedy \<open>?\<close> and \<open>+\<close>, and the counted repetition \<open>{n}\<close>.
  A string is a list of HOL's characters, which stand for the code points below 256;
  the patterns match ASCII characters only.\<close>

datatype cls_item = One char | Range char char

datatype pattern =
    Lit char
  | Cls "cls_item list"
  | Seq pattern pattern
  | Opt pattern
  | Plus pattern
  | Rep nat pattern

fun in_item :: "char \<Rightarrow> cls_item \<Rightarrow> bool" where
  "in_item c (One d) = (c = d)"
| "in_item c (Range lo hi) = ((of_char lo :: nat) \<le> of_char c \<and> (of_char c :: nat) \<le> of_char hi)"

definition in_class :: "cls_item list \<Rightarrow> char \<Rightarrow> bool" where
  "in_class items c = list_ex (in_item c) items"

text \<open>Greedy iteration for \<open>+\<close>: after one match of the body, try another one that
  consumes input before settling for what has been matched. The fuel is the length
  of the input, which bounds the number of consuming iterations.\<close>

fun iterate_greedy :: "(string \<Rightarrow> string list) \<Rightarrow> nat \<Rightarrow> string \<Rightarrow> string list" where
  "iterate_greedy f 0 r = [r]"
| "iterate_greedy f (Suc n) r =
     concat (map (iterate_greedy f n) (filter (\<lambda>r'. length r' < length r) (f r))) @ [r]"

text \<open>The backtracking matcher: all the ways the pattern matches a prefix of the
  input, each given by the rest of the input after the match, in the order in which
  the backtracking engine tries them.\<close>

primrec pmatch :: "pattern \<Rightarrow> string \<Rightarrow> string list" where
  "pmatch (Lit c) s = (case s of [] \<Rightarrow> [] | x # xs \<Rightarrow> if x = c then [xs] else [])"
| "pmatch (Cls items) s = (case s of [] \<Rightarrow> [] | x # xs \<Rightarrow> if in_class items x then [xs] else [])"
| "pmatch (Seq p q) s = concat (map (pmatch q) (pmatch p s))"
| "pmatch (Opt p) s = pmatch p s @ [s]"
| "pmatch (Plus p) s = concat (map (iterate_greedy (pmatch p) (length s)) (pmatch p s))"
| "pmatch (Rep n p) s = ((\<lambda>rs. concat (map (pmatch p) rs)) ^^ n) [s]"

text \<open>\<open>re.findall\<close> for a pattern without groups: the texts of the matches found by
  scanning from left to right, the next search starting where the last match ended.
  After an empty match the scan moves on by one character.\<close>

function findall :: "pattern \<Rightarrow> string \<Rightarrow> string list" where
  "findall p s =
     (case pmatch p s of
        [] \<Rightarrow> (case s of [] \<Rightarrow> [] | _ # t \<Rightarrow> findall p t)
      | r # _ \<Rightarrow>
          if length r < length s then take (length s - length r) s # findall p r
          else (case s of [] \<Rightarrow> [[]] | _ # t \<Rightarrow> [] # findall p t))"
  by pat_completeness auto
termination
  by (relation "measure (\<lambda>(p, s). length s)") auto

text \<open>\<open>re.search\<close>: the text of the leftmost match, if there is one.\<close>

fun search :: "pattern \<Rightarrow> string \<Rightarrow> string option" where
  "search p [] = (case pmatch p [] of [] \<Rightarrow> None | r # _ \<Rightarrow> Some [])"
| "search p (c # cs) =
     (case pmatch p (c # cs) of
        [] \<Rightarrow> search p cs
      | r # _ \<Rightarrow> Some (take (length (c # cs) - length r) (c # cs)))"

section \<open>\<open>lie_vae/datasets.py\<close> and the \<open>ShapeDataset\<close> of \<open>supervised_experiment.py\<close>\<close>

subsection \<open>Library functions\<close>

text \<open>\<open>os.path.join\<close> with two arguments, on POSIX.\<close>

definition path_join :: "string \<Rightarrow> string \<Rightarrow> string" where
  "path_join a b =
     (if b \<noteq> [] \<and> hd b = CHR ''/'' then b
      else if a = [] \<or> last a = CHR ''/'' then a @ b
      else a @ CHR ''/'' # b)"

text \<open>\<open>str.splitlines\<close>: the line boundaries among the characters below 256 are
  \<open>\n\<close>, \<open>\r\<close>, \<open>\r\n\<close>, \<open>\v\<close>, \<open>\f\<close>, \<open>\x1c\<close>, \<open>\x1d\<close>, \<open>\x1e\<close> and \<open>\x85\<close>.\<close>

definition is_linebreak :: "char \<Rightarrow> bool" where
  "is_linebreak c = ((of_char c :: nat) \<in> {10, 11, 12, 13, 28, 29, 30, 133})"

fun splitlines_from :: "string \<Rightarrow> string \<Rightarrow> string list" where
  "splitlines_from cur [] = (if cur = [] then [] else [rev cur])"
| "splitlines_from cur [c] = (if is_linebreak c then [rev cur] else [rev (c # cur)])"
| "splitlines_from cur (c # d # cs) =
     (if (of_char c :: nat) = 13 \<and> (of_char d :: nat) = 10 then rev cur # splitlines_from [] cs
      else if is_linebreak c then rev cur # splitlines_from [] (d # cs)
      else splitlines_from (c # cur) (d # cs))"

definition splitlines :: "string \<Rightarrow> string list" where
  "splitlines s = splitlines_from [] s"

text \<open>Indexing a Python list: negative indices count from the end.\<close>

definition py_index :: "'a list \<Rightarrow> int \<Rightarrow> py_error + 'a" where
  "py_index xs i =
     (if 0 \<le> i \<and> i < int (length xs) then Inr (xs ! nat i)
      else if i < 0 \<and> - int (length xs) \<le> i then Inr (xs ! nat (int (length xs) + i))
      else Inl IndexError)"

text \<open>What the dataset reads from its surroundings: whether a path exists, the text
  of a file, and the result of a recursive glob.\<close>

record file_system =
  fs_exists :: "string \<Rightarrow> bool"
  fs_read :: "string \<Rightarrow> py_error + string"
  fs_glob :: "string \<Rightarrow> string list"

subsection \<open>\<open>ShapeDataset.__init__\<close> (datasets.py, lines 18-27)\<close>

record shape_dataset =
  directory :: string
  files :: "string list"
  root :: "string option"

definition ShapeDataset_init :: "file_system \<Rightarrow> string \<Rightarrow> py_error + shape_dataset" where
  "ShapeDataset_init fs dir =
     (let index_path = path_join dir ''files.txt''
      in if fs_exists fs index_path then
           (case fs_read fs index_path of
              Inl e \<Rightarrow> Inl e
            | Inr text \<Rightarrow> Inr \<lparr>directory = dir, files = splitlines text, root = Some dir\<rparr>)
         else Inr \<lparr>directory = dir, files = fs_glob fs (path_join dir ''**/*.jpg''),
                   root = None\<rparr>)"

text \<open>Line 34: \<open>path = os.path.join(self.root, filename) if self.root else filename\<close>.\<close>

definition item_path :: "shape_dataset \<Rightarrow> string \<Rightarrow> string" where
  "item_path ds filename =
     (if truthy (root ds) then path_join (the (root ds)) filename else filename)"

subsection \<open>\<open>filename_to_quaternion\<close> and \<open>filename_to_name\<close>\<close>

text \<open>The pattern \<open>-?[01]\.[0-9]{4}\<close>.\<close>

definition quaternion_pattern :: pattern where
  "quaternion_pattern =
     Seq (Opt (Lit CHR ''-''))
       (Seq (Cls [One CHR ''0'', One CHR ''1''])
         (Seq (Lit CHR ''.'') (Rep 4 (Cls [Range CHR ''0'' CHR ''9'']))))"

text \<open>\<open>filename_to_quaternion\<close> is the same code in both files. Python's \<open>float\<close> is
  a parameter of the model.\<close>

definition filename_to_quaternion :: "(string \<Rightarrow> 'f) \<Rightarrow> string \<Rightarrow> py_error + 'f list" where
  "filename_to_quaternion pyfloat filename =
     (let matches = findall quaternion_pattern filename
      in if length matches = 4 then Inr (map pyfloat matches)
         else Inl (AssertionError (''No quaternion found in '' @ filename)))"

text \<open>The pattern \<open>([A-z0-9]+)\.obj\<close>. Its group 1 is the match without the four
  characters of \<open>.obj\<close> that end it.\<close>

definition name_pattern :: pattern where
  "name_pattern =
     Seq (Plus (Cls [Range CHR ''A'' CHR ''z'', Range CHR ''0'' CHR ''9'']))
       (Seq (Lit CHR ''.'') (Seq (Lit CHR ''o'') (Seq (Lit CHR ''b'') (Lit CHR ''j''))))"

definition filename_to_name :: "string \<Rightarrow> py_error + string" where
  "filename_to_name filename =
     (case search name_pattern filename of
        None \<Rightarrow> Inl (AssertionError ''Could not find object id from filename'')
      | Some m \<Rightarrow> Inr (take (length m - 4) m))"

subsection \<open>The texts \<open>filename_to_quaternion\<close> is meant to find\<close>

text \<open>Stated without the regular expression engine: a text made of an optional minus
  sign, a digit 0 or 1, a dot, and exactly four digits.\<close>

definition is_digit :: "char \<Rightarrow> bool" where
  "is_digit c = (c \<in> set ''0123456789'')"

definition is_unsigned_text :: "string \<Rightarrow> bool" where
  "is_unsigned_text t =
     (length t = 6 \<and> (t ! 0 = CHR ''0'' \<or> t ! 0 = CHR ''1'') \<and> t ! 1 = CHR ''.''
      \<and> is_digit (t ! 2) \<and> is_digit (t ! 3) \<and> is_digit (t ! 4) \<and> is_digit (t ! 5))"

definition is_quaternion_text :: "string \<Rightarrow> bool" where
  "is_quaternion_text t =
     (is_unsigned_text t \<or> (t \<noteq> [] \<and> hd t = CHR ''-'' \<and> is_unsigned_text (tl t)))"

text \<open>The occurrences of such texts in a string, from left to right, without overlap:
  at each position the text with its minus sign is taken if there is one, and the
  scan goes on behind the text found.\<close>

function quaternion_texts :: "string \<Rightarrow> string list" where
  "quaternion_texts [] = []"
| "quaternion_texts (c # cs) =
     (if c = CHR ''-'' \<and> is_unsigned_text (take 6 cs)
      then (c # take 6 cs) # quaternion_texts (drop 6 cs)
      else if is_unsigned_text (take 6 (c # cs))
      then take 6 (c # cs) # quaternion_texts (drop 6 (c # cs))
      else quaternion_texts cs)"
  by pat_completeness auto
termination
  by (relation "measure length") auto

text \<open>The part of \<open>quaternion_pattern\<close> behind the optional minus sign.\<close>

definition unsigned_pattern :: pattern where
  "unsigned_pattern = Seq (Cls [One CHR ''0'', One CHR ''1''])
         (Seq (Lit CHR ''.'') (Rep 4 (Cls [Range CHR ''0'' CHR ''9''])))"

declare findall.simps [simp del]

text \<open>How a list of texts sits in a string: \<open>weave gaps texts\<close> is the string that has
  the texts in the given order, with the gaps before, between and after them.\<close>

fun weave :: "string list \<Rightarrow> string list \<Rightarrow> string" where
  "weave (g # gs) (t # ts) = g @ t @ weave gs ts"
| "weave gs [] = concat gs"
| "weave [] ts = concat ts"

subsection \<open>\<open>ShapeDataset.__getitem__\<close>\<close>

text \<open>Sequencing of fallible steps: the first exception raised ends the call.\<close>

definition and_then :: "py_error + 'a \<Rightarrow> ('a \<Rightarrow> py_error + 'b) \<Rightarrow> py_error + 'b" where
  "and_then r f = (case r of Inl e \<Rightarrow> Inl e | Inr x \<Rightarrow> f x)"

text \<open>The library calls of \<open>__getitem__\<close>, as parameters: Python's \<open>float\<close>,
  \<open>lie_learn\<close>'s \<open>change_coordinates\<close>, \<open>torch.tensor(..., dtype=torch.float32)\<close>,
  reading an image file into a tensor scaled by 1/255 (\<open>Image.open\<close>, \<open>np.array\<close>,
  \<open>torch.tensor\<close>), and the tensor operations on the image.\<close>

record ('f, 'm, 'g, 'img) libraries =
  pyfloat :: "string \<Rightarrow> 'f"
  SO3_coordinates :: "'f list \<Rightarrow> string \<Rightarrow> string \<Rightarrow> 'm"
  tensor_float32 :: "'m \<Rightarrow> 'g"
  load_image :: "string \<Rightarrow> py_error + 'img"
  tensor_dim :: "'img \<Rightarrow> nat"
  mean_last :: "'img \<Rightarrow> 'img"
  unsqueeze0 :: "'img \<Rightarrow> 'img"
  permute201 :: "'img \<Rightarrow> py_error + 'img"

text \<open>Lines 39-45 of datasets.py: the image tensor by the class attribute \<open>rgb\<close>.\<close>

definition image_channels ::
  "('f, 'm, 'g, 'img) libraries \<Rightarrow> bool \<Rightarrow> 'img \<Rightarrow> py_error + 'img" where
  "image_channels lib rgb image_tensor =
     (if \<not> rgb then
        Inr (unsqueeze0 lib
          (if tensor_dim lib image_tensor = 3 then mean_last lib image_tensor else image_tensor))
      else permute201 lib image_tensor)"

text \<open>datasets.py, lines 32-50. The method \<open>filename_to_name\<close> is looked up on the
  object, so it is an argument: \<open>filename_to_name\<close> above for \<open>ShapeDataset\<close> itself,
  the constant 0 for the humanoid and single chair classes.\<close>

definition ShapeDataset_getitem ::
  "('f, 'm, 'g, 'img) libraries \<Rightarrow> (string \<Rightarrow> py_error + 'n) \<Rightarrow> bool \<Rightarrow> shape_dataset \<Rightarrow> int
   \<Rightarrow> py_error + ('n \<times> 'g \<times> 'img)" where
  "ShapeDataset_getitem lib name_method rgb ds idx =
     and_then (py_index (files ds) idx) (\<lambda>filename.
     and_then (load_image lib (item_path ds filename)) (\<lambda>image.
     and_then (filename_to_quaternion (pyfloat lib) filename) (\<lambda>quaternion.
     and_then (image_channels lib rgb image) (\<lambda>image_tensor.
       let group_el = tensor_float32 lib (SO3_coordinates lib quaternion ''Q'' ''MAT'')
       in and_then (name_method filename) (\<lambda>name.
            Inr (name, group_el, image_tensor))))))"

text \<open>\<open>supervised_experiment.py\<close>, lines 48-64: the file list holds paths, the image is
  always averaged over its last axis, and the object id is searched in place with the
  pattern of \<open>filename_to_name\<close>.\<close>

definition Supervised_getitem ::
  "('f, 'm, 'g, 'img) libraries \<Rightarrow> string list \<Rightarrow> int \<Rightarrow> py_error + (string \<times> 'g \<times> 'img)" where
  "Supervised_getitem lib file_list idx =
     and_then (py_index file_list idx) (\<lambda>filename.
     and_then (load_image lib filename) (\<lambda>image.
     and_then (filename_to_quaternion (pyfloat lib) filename) (\<lambda>quaternion.
       let image_tensor = mean_last lib image;
           group_el = tensor_float32 lib (SO3_coordinates lib quaternion ''Q'' ''MAT'')
       in and_then (filename_to_name filename) (\<lambda>name.
            Inr (name, group_el, image_tensor)))))"

text \<open>The quaternion a filename holds, for the statements below.\<close>

definition parsed_quaternion :: "(string \<Rightarrow> 'f) \<Rightarrow> string \<Rightarrow> 'f list" where
  "parsed_quaternion to_float filename = map to_float (quaternion_texts filename)"

subsection \<open>Concrete surroundings for running the dataset code\<close>

text \<open>A reader of the decimal texts, in units of 1/10000.\<close>

definition ten_thousandths :: "string \<Rightarrow> int" where
  "ten_thousandths t =
     (let n = foldl (\<lambda>n c. 10 * n + (int (of_char c) - 48)) 0 (filter is_digit t)
      in if t \<noteq> [] \<and> hd t = CHR ''-'' then - n else n)"

text \<open>Stand-ins that record the library calls: the converted quaternion is the triple of
  the two coordinate names and the quaternion, an image is the path it was read from
  with the operations applied to it.\<close>

definition demo_lib :: "(int, string \<times> string \<times> int list, string \<times> string \<times> int list, string) libraries" where
  "demo_lib =
     \<lparr>pyfloat = ten_thousandths,
      SO3_coordinates = (\<lambda>q src dst. (src, dst, q)),
      tensor_float32 = (\<lambda>m. m),
      load_image = (\<lambda>path. if path = ''missing.jpg'' then Inl FileNotFoundError else Inr path),
      tensor_dim = (\<lambda>img. 3),
      mean_last = (\<lambda>img. img @ ''.mean(-1)''),
      unsqueeze0 = (\<lambda>img. img @ ''.unsqueeze(0)''),
      permute201 = (\<lambda>img. Inr (img @ ''.permute(2, 0, 1)''))\<rparr>"

definition demo_file :: string where
  "demo_file = ''assets/chair.obj_0.0336_-0.1523_-0.5616_-0.8126.jpg''"

definition demo_fs :: file_system where
  "demo_fs =
     \<lparr>fs_exists = (\<lambda>p. p = ''data/chairs/single/files.txt''),
      fs_read = (\<lambda>p. if p = ''data/chairs/single/files.txt''
                       then Inr (demo_file @ [CHR 0x0A]) else Inl FileNotFoundError),
      fs_glob = (\<lambda>p. if p = ''data/humanoid/**/*.jpg'' then [''data/humanoid/'' @ demo_file] else [])\<rparr>"

definition demo_dataset :: shape_dataset where
  "demo_dataset = \<lparr>directory = ''data/chairs/single'', files = [demo_file],
                    root = Some ''data/chairs/single''\<rparr>"

section \<open>\<open>lie_vae/main.py\<close>: importing and constructing the dataset\<close>

text \<open>The names bound at the top level of \<open>lie_vae/datasets.py\<close>: its imports and
  its classes.\<close>

definition datasets_module_names :: "string list" where
  "datasets_module_names =
     [''re'', ''np'', ''os'', ''glob'', ''torch'', ''Image'', ''Dataset'', ''TensorDataset'',
      ''SO3_coordinates'',
      ''ShapeDataset'', ''NamedDataset'', ''SelectedDataset'', ''ObjectsDataset'',
      ''ThreeObjectsDataset'', ''HumanoidDataset'', ''ColorHumanoidDataset'',
      ''SingleChairDataset'', ''CubeDataset'']"

text \<open>The parameters of each class's \<open>__init__\<close> besides \<open>self\<close>; none of them has a
  default value. \<open>SelectedDataset\<close>, \<open>ObjectsDataset\<close> and \<open>ThreeObjectsDataset\<close> inherit
  the \<open>__init__\<close> of \<open>NamedDataset\<close>.\<close>

definition datasets_init_params :: "(string \<times> string list) list" where
  "datasets_init_params =
     [(''ShapeDataset'', [''directory'']),
      (''NamedDataset'', []),
      (''SelectedDataset'', []),
      (''ObjectsDataset'', []),
      (''ThreeObjectsDataset'', []),
      (''HumanoidDataset'', []),
      (''ColorHumanoidDataset'', []),
      (''SingleChairDataset'', []),
      (''CubeDataset'', [''mode''])]"

text \<open>Calling a class with keyword arguments: the name must be bound, and the keywords
  must be the parameters of \<open>__init__\<close>, or binding the arguments raises \<open>TypeError\<close>.
  The object built is represented by the name of its class.\<close>

definition construct ::
  "(string \<times> string list) list \<Rightarrow> string \<Rightarrow> string list \<Rightarrow> py_error + string" where
  "construct classes cls kwargs =
     (case map_of classes cls of
        None \<Rightarrow> Inl (NameError cls)
      | Some params \<Rightarrow> if set kwargs = set params then Inr cls else Inl TypeError)"

text \<open>\<open>main\<close>, lines 32-51: the dataset chosen by \<open>--dataset\<close>.\<close>

definition main_select_dataset ::
  "(string \<times> string list) list \<Rightarrow> string \<Rightarrow> py_error + string" where
  "main_select_dataset classes dataset =
     (if dataset = ''objects'' then construct classes ''ObjectsDataset'' []
      else if dataset = ''objects3'' then construct classes ''ThreeObjectsDataset'' []
      else if dataset = ''chairs'' then construct classes ''SelectedDataset'' []
      else if dataset = ''humanoid'' then construct classes ''HumanoidDataset'' [''subsample'']
      else if dataset = ''chumanoid'' then construct classes ''ColorHumanoidDataset'' [''subsample'']
      else if dataset = ''single'' then construct classes ''SingleChairDataset'' [''subsample'']
      else if dataset = ''spherecube'' then construct classes ''SphereCubeDataset'' [''subsample'']
      else if dataset = ''toy'' then construct classes ''ToyDataset'' []
      else Inl (RuntimeError ''Wrong dataset''))"

text \<open>Lines 11-13: \<open>from lie_vae.datasets import ...\<close>. The statement raises
  \<open>ImportError\<close> at the first name the module does not bind.\<close>

definition main_imports :: "string list" where
  "main_imports =
     [''SelectedDataset'', ''ObjectsDataset'', ''ThreeObjectsDataset'', ''HumanoidDataset'',
      ''ColorHumanoidDataset'', ''SingleChairDataset'', ''SphereCubeDataset'', ''ToyDataset'']"

definition import_from :: "string list \<Rightarrow> string list \<Rightarrow> py_error + unit" where
  "import_from module_names names =
     (case filter (\<lambda>n. n \<notin> set module_names) names of
        [] \<Rightarrow> Inr ()
      | n # _ \<Rightarrow> Inl (ImportError n))"

text \<open>Running \<open>main.py\<close> with a \<open>--dataset\<close> value, up to the construction of the dataset:
  the module's import statement is executed before \<open>main\<close> is called.\<close>

definition run_main :: "string \<Rightarrow> py_error + string" where
  "run_main dataset =
     and_then (import_from datasets_module_names main_imports)
       (\<lambda>_. main_select_dataset datasets_init_params dataset)"

section \<open>\<open>supervised_experiment.py\<close>: tensors and networks\<close>

subsection \<open>Tensors\<close>

text \<open>A contiguous tensor: its shape and its elements in row-major order. The element
  type is left open; no statement below depends on the arithmetic of the elements.\<close>

record 'a tensor =
  shape :: "nat list"
  elems :: "'a list"

definition well_formed :: "'a tensor \<Rightarrow> bool" where
  "well_formed t = (length (elems t) = prod_list (shape t))"

text \<open>\<open>t.size(0)\<close>.\<close>

definition size0 :: "'a tensor \<Rightarrow> py_error + nat" where
  "size0 t = (case shape t of [] \<Rightarrow> Inl IndexError | n # _ \<Rightarrow> Inr n)"

text \<open>\<open>t.view(-1, k)\<close>: the number of rows is inferred from the number of elements.\<close>

definition view_rows :: "'a tensor \<Rightarrow> nat \<Rightarrow> py_error + 'a tensor" where
  "view_rows t k =
     (if k = 0 \<or> length (elems t) mod k \<noteq> 0
      then Inl (RuntimeError ''shape is invalid for input size'')
      else Inr \<lparr>shape = [length (elems t) div k, k], elems = elems t\<rparr>)"

text \<open>\<open>t.view(n, -1)\<close>: the number of columns is inferred.\<close>

definition view_cols :: "'a tensor \<Rightarrow> nat \<Rightarrow> py_error + 'a tensor" where
  "view_cols t n =
     (if n = 0 \<or> length (elems t) mod n \<noteq> 0
      then Inl (RuntimeError ''shape is invalid for input size'')
      else Inr \<lparr>shape = [n, length (elems t) div n], elems = elems t\<rparr>)"

text \<open>\<open>t.view(*s)\<close> for a shape given in full.\<close>

definition view_as :: "'a tensor \<Rightarrow> nat list \<Rightarrow> py_error + 'a tensor" where
  "view_as t s =
     (if prod_list s = length (elems t) then Inr \<lparr>shape = s, elems = elems t\<rparr>
      else Inl (RuntimeError ''shape is invalid for input size''))"

text \<open>\<open>t.expand(n, -1, -1)\<close> for a two-dimensional \<open>t\<close>: \<open>n\<close> copies along a new first
  axis.\<close>

definition expand_batch :: "'a tensor \<Rightarrow> nat \<Rightarrow> 'a tensor" where
  "expand_batch t n = \<lparr>shape = n # shape t, elems = concat (replicate n (elems t))\<rparr>"

text \<open>\<open>t[:, :, None, None]\<close>.\<close>

definition unsqueeze2 :: "'a tensor \<Rightarrow> 'a tensor" where
  "unsqueeze2 t = \<lparr>shape = shape t @ [1, 1], elems = elems t\<rparr>"

text \<open>\<open>t[:, 0, :, :]\<close> for a four-dimensional \<open>t\<close>.\<close>

definition select_channel0 :: "'a tensor \<Rightarrow> py_error + 'a tensor" where
  "select_channel0 t =
     (case shape t of
        [n, c, h, w] \<Rightarrow>
          if c = 0 then Inl IndexError
          else Inr \<lparr>shape = [n, h, w],
                    elems = concat (map (\<lambda>i. take (h * w) (drop (i * c * h * w) (elems t))) [0..<n])\<rparr>
      | _ \<Rightarrow> Inl IndexError)"

text \<open>\<open>torch.cat((x, y), 1)\<close> for two-dimensional \<open>x\<close> and \<open>y\<close>.\<close>

definition cat1 :: "'a tensor \<Rightarrow> 'a tensor \<Rightarrow> py_error + 'a tensor" where
  "cat1 x y =
     (case (shape x, shape y) of
        ([n, a], [m, b]) \<Rightarrow>
          if n \<noteq> m then Inl (RuntimeError ''Sizes of tensors must match except in dimension 1'')
          else Inr \<lparr>shape = [n, a + b],
                    elems = concat (map (\<lambda>i. take a (drop (i * a) (elems x))
                                             @ take b (drop (i * b) (elems y))) [0..<n])\<rparr>
      | _ \<Rightarrow> Inl (RuntimeError ''Tensors must have same number of dimensions''))"

subsection \<open>Layers and their shapes\<close>

text \<open>The layers of the convolutional stacks, with the arguments in the order of the
  source: input channels, output channels, kernel size, stride, padding.\<close>

datatype layer =
    ConvTranspose2d nat nat nat nat nat
  | Conv2d nat nat nat nat nat
  | ReLU
  | LeakyReLU

text \<open>The shape a layer gives to a batched input \<open>[n, c, h, w]\<close>, by the rules of
  \<open>torch.nn\<close>: a transposed convolution maps a side \<open>h\<close> to \<open>(h - 1) * stride - 2 * padding + kernel\<close>,
  a convolution to \<open>(h + 2 * padding - kernel) div stride + 1\<close>; the activations keep
  the shape.\<close>

definition conv_transpose_side :: "nat \<Rightarrow> nat \<Rightarrow> nat \<Rightarrow> nat \<Rightarrow> py_error + nat" where
  "conv_transpose_side k s p h =
     (if h = 0 \<or> s = 0 \<or> (h - 1) * s + k \<le> 2 * p
      then Inl (RuntimeError ''output size is too small'')
      else Inr ((h - 1) * s + k - 2 * p))"

definition conv_side :: "nat \<Rightarrow> nat \<Rightarrow> nat \<Rightarrow> nat \<Rightarrow> py_error + nat" where
  "conv_side k s p h =
     (if s = 0 \<or> k = 0 \<or> h + 2 * p < k
      then Inl (RuntimeError ''kernel size can't be greater than actual input size'')
      else Inr ((h + 2 * p - k) div s + 1))"

fun layer_shape :: "layer \<Rightarrow> nat list \<Rightarrow> py_error + nat list" where
  "layer_shape (ConvTranspose2d cin cout k s p) [n, c, h, w] =
     (if c \<noteq> cin then Inl (RuntimeError ''channels of the input do not match'')
      else and_then (conv_transpose_side k s p h) (\<lambda>h'.
           and_then (conv_transpose_side k s p w) (\<lambda>w'. Inr [n, cout, h', w'])))"
| "layer_shape (Conv2d cin cout k s p) [n, c, h, w] =
     (if c \<noteq> cin then Inl (RuntimeError ''channels of the input do not match'')
      else and_then (conv_side k s p h) (\<lambda>h'.
           and_then (conv_side k s p w) (\<lambda>w'. Inr [n, cout, h', w'])))"
| "layer_shape ReLU sh = Inr sh"
| "layer_shape LeakyReLU sh = Inr sh"
| "layer_shape _ sh = Inl (RuntimeError ''expected a 4D input'')"

fun sequential_shape :: "layer list \<Rightarrow> nat list \<Rightarrow> py_error + nat list" where
  "sequential_shape [] sh = Inr sh"
| "sequential_shape (l # ls) sh = and_then (layer_shape l sh) (sequential_shape ls)"

text \<open>\<open>DeconvNet\<close>, lines 124-137, and the convolutional stack of \<open>Encoder.__init__\<close>,
  lines 88-112.\<close>

definition DeconvNet :: "nat \<Rightarrow> nat \<Rightarrow> layer list" where
  "DeconvNet in_dims hidden_dims =
     [ConvTranspose2d in_dims hidden_dims 4 1 0,
      ReLU,
      ConvTranspose2d hidden_dims hidden_dims 4 2 1,
      ReLU,
      ConvTranspose2d hidden_dims hidden_dims 4 2 1,
      ReLU,
      ConvTranspose2d hidden_dims hidden_dims 4 2 1,
      ReLU,
      ConvTranspose2d hidden_dims 1 4 2 1]"

definition Encoder_conv :: "nat \<Rightarrow> nat \<Rightarrow> layer list" where
  "Encoder_conv id_dims hidden_dims =
     (let input_nc = 1; nout = 3 + id_dims
      in [Conv2d input_nc hidden_dims 4 2 1,
          LeakyReLU,
          Conv2d hidden_dims (hidden_dims * 2) 4 2 1,
          LeakyReLU,
          Conv2d (hidden_dims * 2) (hidden_dims * 4) 4 2 1,
          LeakyReLU,
          Conv2d (hidden_dims * 4) (hidden_dims * 8) 4 2 1,
          LeakyReLU,
          Conv2d (hidden_dims * 8) nout 4 1 0])"

subsection \<open>The library behind the networks\<close>

text \<open>An \<open>MLP\<close> of \<open>lie_vae.utils\<close> is given by the arguments of its constructor: input
  size, output size, hidden size, number of layers.\<close>

record mlp_spec =
  mlp_in :: nat
  mlp_out :: nat
  mlp_hidden :: nat
  mlp_layers :: nat

text \<open>What the networks call and this file does not define: the functions of
  \<open>lie_vae.lie_tools\<close>, the application of a \<open>torch.nn\<close> layer and of an \<open>MLP\<close> (with
  their current weights), and \<open>torch.randn\<close>.\<close>

record 'a torch_lib =
  group_matrix_to_eazyz :: "'a tensor \<Rightarrow> 'a tensor"
  group_matrix_to_quaternions :: "'a tensor \<Rightarrow> 'a tensor"
  block_wigner_matrix_multiply :: "'a tensor \<Rightarrow> 'a tensor \<Rightarrow> nat \<Rightarrow> 'a tensor"
  apply_layer :: "layer \<Rightarrow> 'a tensor \<Rightarrow> py_error + 'a tensor"
  apply_mlp :: "mlp_spec \<Rightarrow> 'a tensor \<Rightarrow> py_error + 'a tensor"
  randn :: "nat list \<Rightarrow> 'a tensor"

text \<open>\<open>nn.Sequential\<close>: the layers one after the other.\<close>

fun sequential :: "'a torch_lib \<Rightarrow> layer list \<Rightarrow> 'a tensor \<Rightarrow> py_error + 'a tensor" where
  "sequential lib [] t = Inr t"
| "sequential lib (l # ls) t = and_then (apply_layer lib l t) (sequential lib ls)"

subsection \<open>\<open>ActionNet\<close>, lines 140-176\<close>

record 'a action_net =
  an_degrees :: nat
  an_data_dims :: nat
  an_matrix_dims :: nat
  an_item_rep :: "'a tensor option"
  an_harmonics_encoder :: "mlp_spec option"
  an_deconv :: "layer list"

definition ActionNet_init ::
  "'a torch_lib \<Rightarrow> nat \<Rightarrow> layer list \<Rightarrow> nat \<Rightarrow> nat \<Rightarrow> bool \<Rightarrow> nat \<Rightarrow> 'a action_net" where
  "ActionNet_init lib degrees deconv id_dims data_dims single_id harmonics_encoder_layers =
     (let matrix_dims = (degrees + 1) ^ 2
      in if single_id then
           \<lparr>an_degrees = degrees, an_data_dims = data_dims, an_matrix_dims = matrix_dims,
            an_item_rep = Some (randn lib [matrix_dims, data_dims]),
            an_harmonics_encoder = None, an_deconv = deconv\<rparr>
         else
           \<lparr>an_degrees = degrees, an_data_dims = data_dims, an_matrix_dims = matrix_dims,
            an_item_rep = None,
            an_harmonics_encoder =
              Some \<lparr>mlp_in = id_dims, mlp_out = matrix_dims * data_dims, mlp_hidden = 50,
                    mlp_layers = harmonics_encoder_layers\<rparr>,
            an_deconv = deconv\<rparr>)"

text \<open>Lines 165-169: the harmonics, from the single item representation or from the
  encoder of the id data.\<close>

definition ActionNet_harmonics ::
  "'a torch_lib \<Rightarrow> 'a action_net \<Rightarrow> nat \<Rightarrow> 'a tensor option \<Rightarrow> py_error + 'a tensor" where
  "ActionNet_harmonics lib net n id_data =
     (case id_data of
        None \<Rightarrow> Inr (expand_batch (the (an_item_rep net)) n)
      | Some d \<Rightarrow>
          and_then (apply_mlp lib (the (an_harmonics_encoder net)) d) (\<lambda>h.
            view_as h [n, an_matrix_dims net, an_data_dims net]))"

text \<open>Lines 171-173: the signal handed to the deconvolutional network.\<close>

definition ActionNet_item ::
  "'a torch_lib \<Rightarrow> 'a action_net \<Rightarrow> 'a tensor \<Rightarrow> 'a tensor \<Rightarrow> py_error + 'a tensor" where
  "ActionNet_item lib net matrices harmonics =
     (let angles = group_matrix_to_eazyz lib matrices
      in view_rows (block_wigner_matrix_multiply lib angles harmonics (an_degrees net))
           (an_matrix_dims net * an_data_dims net))"

definition ActionNet_forward ::
  "'a torch_lib \<Rightarrow> 'a action_net \<Rightarrow> 'a tensor \<Rightarrow> 'a tensor option \<Rightarrow> py_error + 'a tensor" where
  "ActionNet_forward lib net matrices id_data =
     (if (id_data \<noteq> None) = (an_item_rep net \<noteq> None)
      then Inl (AssertionError ''Either must be single id or provide id_data, not both.'')
      else
        and_then (size0 matrices) (\<lambda>n.
        and_then (ActionNet_harmonics lib net n id_data) (\<lambda>harmonics.
        and_then (ActionNet_item lib net matrices harmonics) (\<lambda>item.
        and_then (sequential lib (an_deconv net) (unsqueeze2 item)) (\<lambda>out.
          select_channel0 out)))))"

subsection \<open>\<open>MLPNet\<close>, lines 179-212\<close>

record mlp_net =
  mn_mode :: string
  mn_mlp :: mlp_spec
  mn_deconv :: "layer list"
  mn_single_id :: bool

definition MLPNet_init ::
  "nat \<Rightarrow> layer list \<Rightarrow> nat \<Rightarrow> string \<Rightarrow> nat \<Rightarrow> bool \<Rightarrow> py_error + mlp_net" where
  "MLPNet_init degrees deconv data_dims mode id_dims single_id =
     (let matrix_dims = (degrees + 1) ^ 2
      in case map_of [(''MAT'', 9), (''Q'', 4), (''EA'', 3)] mode of
           None \<Rightarrow> Inl (KeyError mode)
         | Some dims \<Rightarrow>
             Inr \<lparr>mn_mode = mode,
                  mn_mlp = \<lparr>mlp_in = (if \<not> single_id then dims + id_dims else dims),
                            mlp_out = matrix_dims * data_dims, mlp_hidden = 50, mlp_layers = 3\<rparr>,
                  mn_deconv = deconv,
                  mn_single_id = single_id\<rparr>)"

text \<open>Lines 201-206: the representation of the rotation, by the mode.\<close>

definition MLPNet_rotation_features ::
  "'a torch_lib \<Rightarrow> mlp_net \<Rightarrow> 'a tensor \<Rightarrow> py_error + 'a tensor" where
  "MLPNet_rotation_features lib net r =
     (if mn_mode net = ''MAT'' then view_rows r 9
      else if mn_mode net = ''Q'' then Inr (group_matrix_to_quaternions lib r)
      else Inr (group_matrix_to_eazyz lib r))"

text \<open>Lines 208-209: the id data, if given, is appended to every row.\<close>

definition MLPNet_input ::
  "nat \<Rightarrow> 'a tensor \<Rightarrow> 'a tensor option \<Rightarrow> py_error + 'a tensor" where
  "MLPNet_input n x id_data =
     (case id_data of
        None \<Rightarrow> Inr x
      | Some d \<Rightarrow> and_then (view_cols d n) (\<lambda>d'. cat1 x d'))"

definition MLPNet_forward ::
  "'a torch_lib \<Rightarrow> mlp_net \<Rightarrow> 'a tensor \<Rightarrow> 'a tensor option \<Rightarrow> py_error + 'a tensor" where
  "MLPNet_forward lib net r id_data =
     (if (id_data = None) = (\<not> mn_single_id net)
      then Inl (AssertionError ''Either must be single id or provide id_data, not both.'')
      else
        and_then (size0 r) (\<lambda>n.
        and_then (MLPNet_rotation_features lib net r) (\<lambda>x.
        and_then (MLPNet_input n x id_data) (\<lambda>x.
        and_then (apply_mlp lib (mn_mlp net) x) (\<lambda>x.
        and_then (sequential lib (mn_deconv net) (unsqueeze2 x)) (\<lambda>out.
          select_channel0 out))))))"

text \<open>The number of features of the rotation representation, by the mode: 9 for the
  flattened matrix, 4 for the quaternion, 3 for the Euler angles.\<close>

definition base_dims :: "string \<Rightarrow> nat" where
  "base_dims mode = (if mode = ''MAT'' then 9 else if mode = ''Q'' then 4 else 3)"

subsection \<open>What is assumed of the library\<close>

text \<open>The shapes the library functions return, as their documentation gives them:
  \<open>torch.randn\<close> returns a tensor of the shape asked for; a layer applied to a tensor
  returns a tensor of the shape \<open>layer_shape\<close> computes; an \<open>MLP\<close> maps rows of its
  input size to rows of its output size; \<open>group_matrix_to_eazyz\<close> and
  \<open>group_matrix_to_quaternions\<close> map a batch of 3x3 matrices to rows of 3 and of 4;
  \<open>block_wigner_matrix_multiply\<close> returns a tensor of the shape of the data it
  transforms.\<close>

definition library_shapes :: "'a torch_lib \<Rightarrow> bool" where
  "library_shapes lib =
     ((\<forall>s. shape (randn lib s) = s \<and> well_formed (randn lib s))
      \<and> (\<forall>l t s. well_formed t \<and> layer_shape l (shape t) = Inr s \<longrightarrow>
            (\<exists>t'. apply_layer lib l t = Inr t' \<and> shape t' = s \<and> well_formed t'))
      \<and> (\<forall>spec x n. well_formed x \<and> shape x = [n, mlp_in spec] \<longrightarrow>
            (\<exists>y. apply_mlp lib spec x = Inr y \<and> shape y = [n, mlp_out spec] \<and> well_formed y))
      \<and> (\<forall>r n. well_formed r \<and> shape r = [n, 3, 3] \<longrightarrow>
            shape (group_matrix_to_eazyz lib r) = [n, 3]
            \<and> well_formed (group_matrix_to_eazyz lib r)
            \<and> shape (group_matrix_to_quaternions lib r) = [n, 4]
            \<and> well_formed (group_matrix_to_quaternions lib r))
      \<and> (\<forall>angles h d. well_formed h \<longrightarrow>
            shape (block_wigner_matrix_multiply lib angles h d) = shape h
            \<and> well_formed (block_wigner_matrix_multiply lib angles h d)))"

text \<open>The id data that goes with a network: none for a single id, one row of
  \<open>id_dims\<close> values per rotation otherwise.\<close>

definition id_data_for :: "bool \<Rightarrow> nat \<Rightarrow> nat \<Rightarrow> 'a tensor option \<Rightarrow> bool" where
  "id_data_for single_id id_dims n id_data =
     (case id_data of
        None \<Rightarrow> single_id
      | Some d \<Rightarrow> \<not> single_id \<and> 0 < n \<and> well_formed d \<and> shape d = [n, id_dims])"

text \<open>A library for running the networks: every result is a tensor of the right
  shape filled with one value.\<close>

definition filled :: "nat list \<Rightarrow> int tensor" where
  "filled s = \<lparr>shape = s, elems = replicate (prod_list s) 0\<rparr>"

definition demo_torch :: "int torch_lib" where
  "demo_torch =
     \<lparr>group_matrix_to_eazyz = (\<lambda>r. filled [hd (shape r), 3]),
      group_matrix_to_quaternions = (\<lambda>r. filled [hd (shape r), 4]),
      block_wigner_matrix_multiply = (\<lambda>angles h d. h),
      apply_layer = (\<lambda>l t. case layer_shape l (shape t) of Inl e \<Rightarrow> Inl e | Inr s \<Rightarrow> Inr (filled s)),
      apply_mlp = (\<lambda>spec x. Inr (filled [hd (shape x), mlp_out spec])),
      randn = filled\<rparr>"

definition demo_matrices :: "int tensor" where
  "demo_matrices = \<lparr>shape = [2, 3, 3], elems = [1, 0, 0, 0, 1, 0, 0, 0, 1, 1, 0, 0, 0, 1, 0, 0, 0, 1]\<rparr>"

section \<open>\<open>lie_vae/main.py\<close>: the experiment and what it is given for its loss\<close>











section \<open>The epoch loop: proofs\<close>

lemma epoch_body_counter_mono:
  "early_stop_counter st \<le> early_stop_counter (epoch_body train bv sd mes e st)"
  by (simp add: epoch_body_def Let_def)

lemma epoch_body_improving_keeps:
  "bv (experiment_obj st) \<noteq> bv (train (experiment_obj st) e) \<Longrightarrow>
   early_stop_counter (epoch_body train bv sd mes e st) = early_stop_counter st"
  by (simp add: epoch_body_def Let_def)

lemma epoch_loop_counter_mono:
  "early_stop_counter st \<le> early_stop_counter (epoch_loop train bv sd mes es st)"
proof (induction es arbitrary: st)
  case Nil
  show ?case by simp
next
  case (Cons e es)
  have "early_stop_counter st \<le> early_stop_counter (epoch_body train bv sd mes e st)"
    by (rule epoch_body_counter_mono)
  also have "\<dots> \<le> early_stop_counter (epoch_loop train bv sd mes (e # es) st)"
    using Cons.IH [of "epoch_body train bv sd mes e st"] by (simp add: Let_def)
  finally show ?case .
qed

lemma epoch_loop_append:
  "epoch_loop train bv sd mes (ps @ qs) st =
     (if ps \<noteq> [] \<and> break_epoch (epoch_loop train bv sd mes ps st) \<noteq> None
      then epoch_loop train bv sd mes ps st
      else epoch_loop train bv sd mes qs (epoch_loop train bv sd mes ps st))"
proof (induction ps arbitrary: st)
  case Nil
  show ?case by simp
next
  case (Cons p ps)
  show ?case
  proof (cases "break_epoch (epoch_body train bv sd mes p st) \<noteq> None")
    case True
    then show ?thesis by (simp add: Let_def)
  next
    case False
    then show ?thesis using Cons.IH [of "epoch_body train bv sd mes p st"]
      by (cases ps) (simp_all add: Let_def)
  qed
qed

lemma epoch_loop_prefix_mono:
  "early_stop_counter (epoch_loop train bv sd mes ps st)
     \<le> early_stop_counter (epoch_loop train bv sd mes (ps @ qs) st)"
  by (simp add: epoch_loop_append epoch_loop_counter_mono)

lemma stale_before_0 [simp]: "stale_before flags 0 = 0"
  by (simp add: stale_before_def)

lemma stale_before_Suc [simp]:
  "stale_before (b # flags) (Suc i) = (if b then Suc (stale_before flags i) else stale_before flags i)"
  by (simp add: stale_before_def)

lemma length_stale [simp]: "length (stale train bv es ex) = length es"
  by (induction es arbitrary: ex) simp_all

lemma epoch_loop_break_gen:
  assumes "truthy sd"
  shows "break_epoch st = None \<Longrightarrow> break_epoch (epoch_loop train bv sd (Some k) es st) = Some e \<longleftrightarrow>
     (\<exists>i<length es. es ! i = e \<and> stale train bv es (experiment_obj st) ! i
        \<and> stale_before (stale train bv es (experiment_obj st)) i = nat (k - early_stop_counter st))"
proof (induction es arbitrary: st)
  case Nil
  then show ?case by simp
next
  case (Cons e0 es)
  let ?st' = "epoch_body train bv sd (Some k) e0 st"
  let ?x = "experiment_obj st"
  have ex': "experiment_obj ?st' = train ?x e0"
    by (simp add: epoch_body_def Let_def)
  show ?case
  proof (cases "bv ?x = bv (train ?x e0)")
    case False
    then have b: "break_epoch ?st' = None" and c: "early_stop_counter ?st' = early_stop_counter st"
      using assms Cons.prems by (simp_all add: epoch_body_def Let_def)
    show ?thesis
      using Cons.IH [OF b] False b by (simp add: Let_def Ex_less_Suc2 ex' c)
  next
    case True
    show ?thesis
    proof (cases "early_stop_counter st < k")
      case lt: True
      then have b: "break_epoch ?st' = None" and c: "early_stop_counter ?st' = early_stop_counter st + 1"
        using assms Cons.prems True by (simp_all add: epoch_body_def Let_def)
      have n: "nat (k - early_stop_counter st) = Suc (nat (k - (early_stop_counter st + 1)))"
        using lt by simp
      show ?thesis
        using Cons.IH [OF b] True b by (simp add: Let_def Ex_less_Suc2 ex' c n del: nat_diff_distrib)
    next
      case ge: False
      then have b: "break_epoch ?st' = Some e0"
        using assms Cons.prems True by (simp add: epoch_body_def Let_def)
      have n: "nat (k - early_stop_counter st) = 0" using ge by simp
      show ?thesis
        using True b by (auto simp add: Let_def Ex_less_Suc2 n)
    qed
  qed
qed


lemma stale_before_step:
  "i < length flags \<Longrightarrow>
   stale_before flags (Suc i) = stale_before flags i + (if flags ! i then 1 else 0)"
  by (simp add: stale_before_def take_Suc_conv_app_nth)

lemma stale_before_mono: "i \<le> j \<Longrightarrow> stale_before flags i \<le> stale_before flags j"
proof (induction j)
  case 0
  then show ?case by simp
next
  case (Suc j)
  show ?case
  proof (cases "i = Suc j")
    case True
    then show ?thesis by simp
  next
    case False
    with Suc have le: "stale_before flags i \<le> stale_before flags j" by simp
    show ?thesis
    proof (cases "j < length flags")
      case True
      then show ?thesis using le by (simp add: stale_before_step)
    next
      case False
      then show ?thesis using le by (simp add: stale_before_def)
    qed
  qed
qed

lemma stale_before_strict:
  assumes "j < i" "j < length flags" "flags ! j"
  shows "stale_before flags j < stale_before flags i"
proof -
  have "stale_before flags (Suc j) = Suc (stale_before flags j)"
    using assms by (simp add: stale_before_step)
  moreover have "stale_before flags (Suc j) \<le> stale_before flags i"
    using assms by (intro stale_before_mono) simp
  ultimately show ?thesis by simp
qed

lemma epoch_loop_checkpoints:
  "e \<in> set (checkpoints (epoch_loop train bv sd mes es st)) \<Longrightarrow>
   e \<in> set (checkpoints st) \<or>
   (truthy sd \<and> (\<exists>i<length es. es ! i = e \<and>
      (\<not> stale train bv es (experiment_obj st) ! i \<or> mes = None)))"
proof (induction es arbitrary: st)
  case Nil
  then show ?case by simp
next
  case (Cons e0 es)
  let ?st' = "epoch_body train bv sd mes e0 st"
  have ex': "experiment_obj ?st' = train (experiment_obj st) e0"
    by (simp add: epoch_body_def Let_def)
  have body: "e \<in> set (checkpoints ?st') \<Longrightarrow> e \<in> set (checkpoints st) \<or>
     (truthy sd \<and> e = e0 \<and> (bv (experiment_obj st) \<noteq> bv (train (experiment_obj st) e0) \<or> mes = None))"
    by (auto simp add: epoch_body_def Let_def split: if_splits)
  show ?case
  proof (cases "break_epoch ?st' \<noteq> None")
    case True
    then have "e \<in> set (checkpoints ?st')" using Cons.prems by (simp add: Let_def)
    from body [OF this] show ?thesis by (auto simp add: Ex_less_Suc2)
  next
    case False
    then have "e \<in> set (checkpoints (epoch_loop train bv sd mes es ?st'))"
      using Cons.prems by (simp add: Let_def)
    from Cons.IH [OF this] show ?thesis
    proof
      assume "e \<in> set (checkpoints ?st')"
      from body [OF this] show ?thesis by (auto simp add: Ex_less_Suc2)
    next
      assume "truthy sd \<and> (\<exists>i<length es. es ! i = e \<and>
        (\<not> stale train bv es (experiment_obj ?st') ! i \<or> mes = None))"
      then show ?thesis by (auto simp add: Ex_less_Suc2 ex')
    qed
  qed
qed

text \<open>Claim C10. In the epoch loop of \<open>main\<close> the early-stop counter never decreases
  from one iteration to the next and an improving epoch leaves it as it is. With a save
  directory and \<open>max_early_stop = k\<close>, the loop breaks exactly at the first non-improving
  epoch that has \<open>k\<close> non-improving epochs before it, counted over the whole run, whatever
  improvements lie in between. A checkpoint is written only at an epoch that changed
  \<open>best_value\<close>, or when \<open>max_early_stop\<close> is \<open>None\<close>.\<close>

theorem early_stop_counter_cumulative:
  "(\<forall>sd mes ps qs (st :: 'e loop_state).
      early_stop_counter (epoch_loop train best_value sd mes ps st)
        \<le> early_stop_counter (epoch_loop train best_value sd mes (ps @ qs) st))
   \<and> (\<forall>sd mes epoch (st :: 'e loop_state).
        best_value (experiment_obj st) \<noteq> best_value (train (experiment_obj st) epoch) \<longrightarrow>
        early_stop_counter (epoch_body train best_value sd mes epoch st) = early_stop_counter st)
   \<and> (truthy (effective_save_dir args) \<and> max_early_stop args = Some k \<longrightarrow>
        (break_epoch (main_loop train best_value args ex) = Some e \<longleftrightarrow>
          (\<exists>i<length (epoch_range args).
             epoch_range args ! i = e
             \<and> run_flags train best_value args ex ! i
             \<and> stale_before (run_flags train best_value args ex) i = nat k
             \<and> (\<forall>j<i. \<not> (run_flags train best_value args ex ! j
                   \<and> stale_before (run_flags train best_value args ex) j = nat k)))))
   \<and> (\<forall>c \<in> set (checkpoints (main_loop train best_value args ex)).
        \<exists>i<length (epoch_range args). epoch_range args ! i = c
          \<and> (\<not> run_flags train best_value args ex ! i \<or> max_early_stop args = None))"
proof (intro conjI allI impI ballI)
  fix sd mes ps qs and st :: "'e loop_state"
  show "early_stop_counter (epoch_loop train best_value sd mes ps st)
        \<le> early_stop_counter (epoch_loop train best_value sd mes (ps @ qs) st)"
    by (rule epoch_loop_prefix_mono)
next
  fix sd mes epoch and st :: "'e loop_state"
  assume "best_value (experiment_obj st) \<noteq> best_value (train (experiment_obj st) epoch)"
  then show "early_stop_counter (epoch_body train best_value sd mes epoch st) = early_stop_counter st"
    by (rule epoch_body_improving_keeps)
next
  assume a: "truthy (effective_save_dir args) \<and> max_early_stop args = Some k"
  let ?fl = "run_flags train best_value args ex"
  have gen: "break_epoch (main_loop train best_value args ex) = Some e \<longleftrightarrow>
     (\<exists>i<length (epoch_range args). epoch_range args ! i = e \<and> ?fl ! i \<and> stale_before ?fl i = nat k)"
    using a epoch_loop_break_gen [of "effective_save_dir args" "initial_state ex" train best_value k "epoch_range args" e]
    by (simp add: main_loop_def run_flags_def initial_state_def)
  have first: "\<And>i j. i < length (epoch_range args) \<Longrightarrow> stale_before ?fl i = nat k \<Longrightarrow> j < i
      \<Longrightarrow> \<not> (?fl ! j \<and> stale_before ?fl j = nat k)"
  proof
    fix i j
    assume i: "i < length (epoch_range args)" "stale_before ?fl i = nat k" "j < i"
      and j: "?fl ! j \<and> stale_before ?fl j = nat k"
    have "stale_before ?fl j < stale_before ?fl i"
      using i j by (intro stale_before_strict) (simp_all add: run_flags_def)
    with i j show False by simp
  qed
  show "break_epoch (main_loop train best_value args ex) = Some e \<longleftrightarrow>
     (\<exists>i<length (epoch_range args). epoch_range args ! i = e \<and> ?fl ! i \<and> stale_before ?fl i = nat k
        \<and> (\<forall>j<i. \<not> (?fl ! j \<and> stale_before ?fl j = nat k)))"
    unfolding gen using first by blast
next
  fix c
  assume "c \<in> set (checkpoints (main_loop train best_value args ex))"
  then show "\<exists>i<length (epoch_range args). epoch_range args ! i = c
          \<and> (\<not> run_flags train best_value args ex ! i \<or> max_early_stop args = None)"
    using epoch_loop_checkpoints [of c train best_value "effective_save_dir args" "max_early_stop args"
        "epoch_range args" "initial_state ex"]
    by (auto simp add: main_loop_def run_flags_def initial_state_def)
qed

lemma demo_run: "main_loop demo_train best_value_demo demo_args 0 =
   \<lparr>experiment_obj = 1, early_stop_counter = 1, checkpoints = [1], break_epoch = Some 2\<rparr>"
  by (simp add: main_loop_def demo_args_def demo_train_def epoch_range_def effective_save_dir_def
     truthy_def initial_state_def epoch_body_def Let_def upto.simps best_value_demo_def)

lemma demo_flags: "run_flags demo_train best_value_demo demo_args 0 = [True, False, True, True, True]"
  by (simp add: run_flags_def demo_args_def demo_train_def epoch_range_def upto.simps best_value_demo_def)


theorem early_stop_counter_cumulative_witness:
  "truthy (effective_save_dir demo_args) \<and> max_early_stop demo_args = Some 1
   \<and> best_value_demo 0 \<noteq> best_value_demo (demo_train 0 1)
   \<and> early_stop_counter (epoch_body demo_train best_value_demo (Some ''out'') (Some 1) 1 (initial_state 0)) = 0
   \<and> break_epoch (main_loop demo_train best_value_demo demo_args 0) = Some 2
   \<and> (\<exists>i<length (epoch_range demo_args).
         epoch_range demo_args ! i = 2
         \<and> run_flags demo_train best_value_demo demo_args 0 ! i
         \<and> stale_before (run_flags demo_train best_value_demo demo_args 0) i = nat 1
         \<and> (\<forall>j<i. \<not> (run_flags demo_train best_value_demo demo_args 0 ! j
               \<and> stale_before (run_flags demo_train best_value_demo demo_args 0) j = nat 1)))
   \<and> checkpoints (main_loop demo_train best_value_demo demo_args 0) = [1]
   \<and> (\<exists>i<length (epoch_range demo_args). epoch_range demo_args ! i = 1
         \<and> (\<not> run_flags demo_train best_value_demo demo_args 0 ! i \<or> max_early_stop demo_args = None))"
proof -
  note inst = early_stop_counter_cumulative [of demo_train best_value_demo demo_args 1 0 2]
  have a: "truthy (effective_save_dir demo_args) \<and> max_early_stop demo_args = Some 1"
    by (simp add: demo_args_def effective_save_dir_def truthy_def)
  have n: "best_value_demo 0 \<noteq> best_value_demo (demo_train 0 1)"
    by (simp add: best_value_demo_def demo_train_def)
  have k: "early_stop_counter (epoch_body demo_train best_value_demo (Some ''out'') (Some 1) 1 (initial_state 0)) = 0"
    using inst n by (simp add: initial_state_def)
  have b: "break_epoch (main_loop demo_train best_value_demo demo_args 0) = Some 2"
    by (simp add: demo_run)
  have c: "checkpoints (main_loop demo_train best_value_demo demo_args 0) = [1]"
    by (simp add: demo_run)
  from inst a b c n k show ?thesis by simp
qed

section \<open>Matching the quaternion pattern: proofs\<close>

lemma in_class_01: "in_class [One CHR ''0'', One CHR ''1''] c \<longleftrightarrow> c = CHR ''0'' \<or> c = CHR ''1''"
  by (auto simp add: in_class_def)

lemma char_eq_code: "c = d \<longleftrightarrow> (of_char c :: nat) = of_char d"
  by simp

lemma in_class_digit: "in_class [Range CHR ''0'' CHR ''9''] c \<longleftrightarrow> is_digit c"
proof -
  have "is_digit c \<longleftrightarrow> (of_char c :: nat) \<in> {48, 49, 50, 51, 52, 53, 54, 55, 56, 57}"
    unfolding is_digit_def by (simp add: char_eq_code [of c])
  also have "\<dots> \<longleftrightarrow> 48 \<le> (of_char c :: nat) \<and> (of_char c :: nat) \<le> 57"
    by (simp only: insert_iff empty_iff) arith
  finally show ?thesis by (simp add: in_class_def)
qed

lemma pmatch_unsigned_short: "length s < 6 \<Longrightarrow> pmatch unsigned_pattern s = []"
  by (auto simp add: unsigned_pattern_def eval_nat_numeral split: list.split)

lemma pmatch_unsigned_long:
  "pmatch unsigned_pattern (a # b # c # d # e # f # r) =
     (if is_unsigned_text [a, b, c, d, e, f] then [r] else [])"
  by (auto simp add: unsigned_pattern_def eval_nat_numeral in_class_01 in_class_digit is_unsigned_text_def)


lemma pmatch_unsigned:
  "pmatch unsigned_pattern s = (if is_unsigned_text (take 6 s) then [drop 6 s] else [])"
proof (cases "length s < 6")
  case True
  then show ?thesis by (simp add: pmatch_unsigned_short is_unsigned_text_def)
next
  case False
  then have "6 \<le> length s" by simp
  then obtain a b c d e f r where s: "s = a # b # c # d # e # f # r"
    by (auto simp add: eval_nat_numeral Suc_le_length_iff)
  show ?thesis unfolding s by (simp add: pmatch_unsigned_long eval_nat_numeral)
qed

lemma quaternion_pattern_eq: "quaternion_pattern = Seq (Opt (Lit CHR ''-'')) unsigned_pattern"
  by (simp add: quaternion_pattern_def unsigned_pattern_def)

lemma unsigned_text_no_minus: "is_unsigned_text (CHR ''-'' # t) = False"
  by (simp add: is_unsigned_text_def)

lemma pmatch_quaternion_Nil: "pmatch quaternion_pattern [] = []"
  by (simp add: quaternion_pattern_eq pmatch_unsigned is_unsigned_text_def)

lemma pmatch_quaternion_Cons:
  "pmatch quaternion_pattern (c # cs) =
     (if c = CHR ''-'' \<and> is_unsigned_text (take 6 cs) then [drop 6 cs]
      else if is_unsigned_text (take 6 (c # cs)) then [drop 6 (c # cs)]
      else [])"
  by (simp add: quaternion_pattern_eq pmatch_unsigned unsigned_text_no_minus)

lemma unsigned_text_take:
  assumes "is_unsigned_text (take 6 s)"
  shows "6 \<le> length s"
  using assms by (auto simp add: is_unsigned_text_def)

lemma findall_step_match:
  "pmatch p s = r # rs \<Longrightarrow> length r < length s \<Longrightarrow>
   findall p s = take (length s - length r) s # findall p r"
  by (subst findall.simps) simp

lemma findall_step_none: "pmatch p (c # cs) = [] \<Longrightarrow> findall p (c # cs) = findall p cs"
  by (subst findall.simps) simp

lemma findall_quaternion: "findall quaternion_pattern s = quaternion_texts s"
proof (induction s rule: quaternion_texts.induct)
  case 1
  show ?case by (subst findall.simps) (simp add: pmatch_quaternion_Nil)
next
  case (2 c cs)
  show ?case
  proof (cases "c = CHR ''-'' \<and> is_unsigned_text (take 6 cs)")
    case True
    then have len: "6 \<le> length cs" by (simp add: unsigned_text_take)
    have pm: "pmatch quaternion_pattern (c # cs) = [drop 6 cs]"
      using True by (simp add: pmatch_quaternion_Cons del: take_Cons_numeral drop_Cons_numeral)
    have t: "take (length (c # cs) - length (drop 6 cs)) (c # cs) = c # take 6 cs"
      using len by (simp add: eval_nat_numeral)
    have "findall quaternion_pattern (c # cs) = (c # take 6 cs) # findall quaternion_pattern (drop 6 cs)"
      using findall_step_match [OF pm] len t by simp
    moreover have "quaternion_texts (c # cs) = (c # take 6 cs) # quaternion_texts (drop 6 cs)"
      using True by (simp del: take_Cons_numeral drop_Cons_numeral)
    ultimately show ?thesis using "2.IH"(1) [OF True] by simp
  next
    case ns: False
    show ?thesis
    proof (cases "is_unsigned_text (take 6 (c # cs))")
      case True
      then have len: "6 \<le> length (c # cs)" by (rule unsigned_text_take)
      have pm: "pmatch quaternion_pattern (c # cs) = [drop 6 (c # cs)]"
        using True ns by (auto simp add: pmatch_quaternion_Cons simp del: take_Cons_numeral drop_Cons_numeral)
      have l: "length (drop 6 (c # cs)) < length (c # cs)" using len by simp
      have d: "length (c # cs) - length (drop 6 (c # cs)) = 6" using len by simp
      have "findall quaternion_pattern (c # cs) =
            take 6 (c # cs) # findall quaternion_pattern (drop 6 (c # cs))"
        using findall_step_match [OF pm l] by (simp only: d)
      moreover have "quaternion_texts (c # cs) = take 6 (c # cs) # quaternion_texts (drop 6 (c # cs))"
        using True ns by (auto simp del: take_Cons_numeral drop_Cons_numeral)
      ultimately show ?thesis using "2.IH"(2) [OF ns True] by simp
    next
      case False
      have pm: "pmatch quaternion_pattern (c # cs) = []"
        using False ns by (auto simp add: pmatch_quaternion_Cons simp del: take_Cons_numeral drop_Cons_numeral)
      have "quaternion_texts (c # cs) = quaternion_texts cs"
        using False ns by (auto simp del: take_Cons_numeral drop_Cons_numeral)
      then show ?thesis using findall_step_none [OF pm] "2.IH"(3) [OF ns False] by simp
    qed
  qed
qed

lemma quaternion_texts_match: "t \<in> set (quaternion_texts s) \<Longrightarrow> is_quaternion_text t"
proof (induction s rule: quaternion_texts.induct)
  case 1
  then show ?case by simp
next
  case (2 c cs)
  show ?case
  proof (cases "c = CHR ''-'' \<and> is_unsigned_text (take 6 cs)")
    case True
    then have "quaternion_texts (c # cs) = (c # take 6 cs) # quaternion_texts (drop 6 cs)"
      by (simp del: take_Cons_numeral drop_Cons_numeral)
    with "2.prems" have "t = c # take 6 cs \<or> t \<in> set (quaternion_texts (drop 6 cs))" by simp
    then show ?thesis
    proof
      assume "t = c # take 6 cs"
      then show ?thesis using True by (simp add: is_quaternion_text_def)
    next
      assume "t \<in> set (quaternion_texts (drop 6 cs))"
      then show ?thesis using "2.IH"(1) [OF True] by simp
    qed
  next
    case ns: False
    show ?thesis
    proof (cases "is_unsigned_text (take 6 (c # cs))")
      case True
      then have "quaternion_texts (c # cs) = take 6 (c # cs) # quaternion_texts (drop 6 (c # cs))"
        using ns by (auto simp del: take_Cons_numeral drop_Cons_numeral)
      with "2.prems" have "t = take 6 (c # cs) \<or> t \<in> set (quaternion_texts (drop 6 (c # cs)))"
        by (simp del: take_Cons_numeral drop_Cons_numeral)
      then show ?thesis
      proof
        assume "t = take 6 (c # cs)"
        then show ?thesis using True by (simp add: is_quaternion_text_def)
      next
        assume "t \<in> set (quaternion_texts (drop 6 (c # cs)))"
        then show ?thesis using "2.IH"(2) [OF ns True] by simp
      qed
    next
      case False
      then have "quaternion_texts (c # cs) = quaternion_texts cs"
        using ns by (auto simp del: take_Cons_numeral drop_Cons_numeral)
      with "2.prems" show ?thesis using "2.IH"(3) [OF ns False] by simp
    qed
  qed
qed

section \<open>\<open>filename_to_quaternion\<close>\<close>

lemma weave_quaternion_texts:
  "\<exists>gaps. length gaps = Suc (length (quaternion_texts s)) \<and> weave gaps (quaternion_texts s) = s"
proof (induction s rule: quaternion_texts.induct)
  case 1
  have "length [[]::string] = Suc (length (quaternion_texts [])) \<and> weave [[]] (quaternion_texts []) = []"
    by simp
  then show ?case by blast
next
  case (2 c cs)
  show ?case
  proof (cases "c = CHR ''-'' \<and> is_unsigned_text (take 6 cs)")
    case True
    then have q: "quaternion_texts (c # cs) = (c # take 6 cs) # quaternion_texts (drop 6 cs)"
      by (auto simp del: take_Cons_numeral drop_Cons_numeral)
    from "2.IH"(1) [OF True] obtain gaps where
      g: "length gaps = Suc (length (quaternion_texts (drop 6 cs)))"
         "weave gaps (quaternion_texts (drop 6 cs)) = drop 6 cs" by blast
    have "length ([] # gaps) = Suc (length (quaternion_texts (c # cs)))
          \<and> weave ([] # gaps) (quaternion_texts (c # cs)) = c # cs"
      unfolding q using g by simp
    then show ?thesis by blast
  next
    case ns: False
    show ?thesis
    proof (cases "is_unsigned_text (take 6 (c # cs))")
      case True
      then have q: "quaternion_texts (c # cs) = take 6 (c # cs) # quaternion_texts (drop 6 (c # cs))"
        using ns by (auto simp del: take_Cons_numeral drop_Cons_numeral)
      from "2.IH"(2) [OF ns True] obtain gaps where
        g: "length gaps = Suc (length (quaternion_texts (drop 6 (c # cs))))"
           "weave gaps (quaternion_texts (drop 6 (c # cs))) = drop 6 (c # cs)" by blast
      have "length ([] # gaps) = Suc (length (quaternion_texts (c # cs)))
            \<and> weave ([] # gaps) (quaternion_texts (c # cs)) = c # cs"
        unfolding q using g by (simp del: take_Cons_numeral drop_Cons_numeral)
      then show ?thesis by blast
    next
      case False
      then have q: "quaternion_texts (c # cs) = quaternion_texts cs"
        using ns by (auto simp del: take_Cons_numeral drop_Cons_numeral)
      from "2.IH"(3) [OF ns False] obtain gaps where
        g: "length gaps = Suc (length (quaternion_texts cs))"
           "weave gaps (quaternion_texts cs) = cs" by blast
      then obtain g0 gs where gaps: "gaps = g0 # gs" by (cases gaps) auto
      have w: "weave ((c # g0) # gs) ts = c # weave (g0 # gs) ts" for ts
        by (cases ts) simp_all
      have "length ((c # g0) # gs) = Suc (length (quaternion_texts (c # cs)))
            \<and> weave ((c # g0) # gs) (quaternion_texts (c # cs)) = c # cs"
        unfolding q using g by (simp add: gaps w)
      then show ?thesis by blast
    qed
  qed
qed

text \<open>Claim C9. For every filename, \<open>filename_to_quaternion\<close> returns the floats of
  the texts that match an optional minus sign, a digit 0 or 1, a dot and exactly four
  digits, in the order in which they occur in the filename (found from left to right
  without overlap); it raises an \<open>AssertionError\<close> if and only if the number of these
  matches is not four.\<close>

theorem filename_to_quaternion_findall:
  "filename_to_quaternion to_float filename =
     (if length (quaternion_texts filename) = 4
      then Inr (map to_float (quaternion_texts filename))
      else Inl (AssertionError (''No quaternion found in '' @ filename)))
   \<and> (\<forall>t \<in> set (quaternion_texts filename). is_quaternion_text t)
   \<and> (\<exists>gaps. length gaps = Suc (length (quaternion_texts filename))
         \<and> weave gaps (quaternion_texts filename) = filename)
   \<and> ((\<exists>msg. filename_to_quaternion to_float filename = Inl (AssertionError msg))
        \<longleftrightarrow> length (quaternion_texts filename) \<noteq> 4)"
  by (simp add: filename_to_quaternion_def findall_quaternion quaternion_texts_match
      weave_quaternion_texts Let_def)



lemma demo_texts: "quaternion_texts demo_file = [''0.0336'', ''-0.1523'', ''-0.5616'', ''-0.8126'']"
  unfolding demo_file_def by code_simp

lemma short_texts: "quaternion_texts ''chair.obj_0.0336.jpg'' = [''0.0336'']"
  by code_simp

lemma demo_values: "map ten_thousandths [''0.0336'', ''-0.1523'', ''-0.5616'', ''-0.8126'']
      = [336, - 1523, - 5616, - 8126]"
  by code_simp


theorem filename_to_quaternion_findall_witness:
  "filename_to_quaternion ten_thousandths demo_file = Inr [336, - 1523, - 5616, - 8126]
   \<and> is_quaternion_text ''-0.1523''
   \<and> length (quaternion_texts ''chair.obj_0.0336.jpg'') \<noteq> 4
   \<and> (\<exists>msg. filename_to_quaternion ten_thousandths ''chair.obj_0.0336.jpg'' = Inl (AssertionError msg))"
proof -
  note full = filename_to_quaternion_findall [of ten_thousandths demo_file]
  note short = filename_to_quaternion_findall [of ten_thousandths "''chair.obj_0.0336.jpg''"]
  have four: "length (quaternion_texts demo_file) = 4"
    by (simp only: demo_texts) simp
  have one: "length (quaternion_texts ''chair.obj_0.0336.jpg'') \<noteq> 4"
    by (simp only: short_texts) simp
  have "filename_to_quaternion ten_thousandths demo_file
          = Inr (map ten_thousandths (quaternion_texts demo_file))"
    using full [THEN conjunct1] by (simp only: four if_True simp_thms)
  then have a: "filename_to_quaternion ten_thousandths demo_file = Inr [336, - 1523, - 5616, - 8126]"
    by (simp only: demo_texts demo_values)
  have "\<forall>t \<in> set (quaternion_texts demo_file). is_quaternion_text t"
    by (rule full [THEN conjunct2, THEN conjunct1])
  then have b: "is_quaternion_text ''-0.1523''"
    by (simp only: demo_texts) simp
  have c: "\<exists>msg. filename_to_quaternion ten_thousandths ''chair.obj_0.0336.jpg'' = Inl (AssertionError msg)"
    by (rule iffD2 [OF short [THEN conjunct2, THEN conjunct2, THEN conjunct2] one])
  show ?thesis
    by (intro conjI a b c one)
qed

section \<open>\<open>ShapeDataset\<close>: proofs\<close>

lemma path_join_empty: "path_join [] b = b"
  by (simp add: path_join_def)

text \<open>Claim C7. \<open>ShapeDataset\<close> prefers an index file to globbing: when
  \<open>files.txt\<close> exists in the dataset directory (and can be read), the file list is the
  lines of that file and the path of every item is the filename joined onto the
  directory; otherwise the file list is the recursive glob of \<open>**/*.jpg\<close> under the
  directory and every entry is its own path.\<close>

theorem ShapeDataset_index_file_or_glob:
  "(fs_exists fs (path_join dir ''files.txt'')
      \<and> fs_read fs (path_join dir ''files.txt'') = Inr text \<longrightarrow>
      (\<exists>ds. ShapeDataset_init fs dir = Inr ds \<and> files ds = splitlines text
         \<and> (\<forall>filename. item_path ds filename = path_join dir filename)))
   \<and> (\<not> fs_exists fs (path_join dir ''files.txt'') \<longrightarrow>
      (\<exists>ds. ShapeDataset_init fs dir = Inr ds
         \<and> files ds = fs_glob fs (path_join dir ''**/*.jpg'')
         \<and> (\<forall>filename. item_path ds filename = filename)))"
  by (simp add: ShapeDataset_init_def item_path_def truthy_def path_join_empty Let_def)

lemma and_then_Inr_iff:
  "and_then r f = Inr y \<longleftrightarrow> (\<exists>x. r = Inr x \<and> f x = Inr y)"
  by (cases r) (simp_all add: and_then_def)

lemma and_then_Inr [simp]: "and_then (Inr x) f = f x"
  by (simp add: and_then_def)

lemma filename_to_quaternion_valid:
  "length (quaternion_texts filename) = 4 \<Longrightarrow>
   filename_to_quaternion to_float filename = Inr (parsed_quaternion to_float filename)"
  by (simp add: filename_to_quaternion_def findall_quaternion parsed_quaternion_def Let_def)

text \<open>Claim C3. For an item whose filename holds a valid quaternion (four matches),
  whatever \<open>__getitem__\<close> returns has as its group element the float32 tensor of
  \<open>SO3_coordinates(quaternion, 'Q', 'MAT')\<close> for the quaternion parsed from the
  filename, in \<open>datasets.py\<close> and in \<open>supervised_experiment.py\<close> alike; the result is
  the triple of name, group element and image, which has no place for the quaternion.
  The call returns exactly when the image can be read and prepared and the object id
  is found in the filename.\<close>

theorem getitem_group_element:
  "(py_index (files ds) idx = Inr filename \<and> length (quaternion_texts filename) = 4 \<longrightarrow>
      (\<forall>name g img. ShapeDataset_getitem lib name_method rgb ds idx = Inr (name, g, img) \<longrightarrow>
         g = tensor_float32 lib
               (SO3_coordinates lib (parsed_quaternion (pyfloat lib) filename) ''Q'' ''MAT''))
      \<and> ((\<exists>r. ShapeDataset_getitem lib name_method rgb ds idx = Inr r) \<longleftrightarrow>
           (\<exists>image. load_image lib (item_path ds filename) = Inr image
              \<and> (\<exists>t. image_channels lib rgb image = Inr t))
           \<and> (\<exists>n. name_method filename = Inr n)))
   \<and> (py_index file_list idx' = Inr filename' \<and> length (quaternion_texts filename') = 4 \<longrightarrow>
      (\<forall>name g img. Supervised_getitem lib file_list idx' = Inr (name, g, img) \<longrightarrow>
         g = tensor_float32 lib
               (SO3_coordinates lib (parsed_quaternion (pyfloat lib) filename') ''Q'' ''MAT''))
      \<and> ((\<exists>r. Supervised_getitem lib file_list idx' = Inr r) \<longleftrightarrow>
           (\<exists>image. load_image lib filename' = Inr image)
           \<and> (\<exists>n. filename_to_name filename' = Inr n)))"
proof (intro conjI impI)
  assume a: "py_index (files ds) idx = Inr filename \<and> length (quaternion_texts filename) = 4"
  then have q: "filename_to_quaternion (pyfloat lib) filename
                  = Inr (parsed_quaternion (pyfloat lib) filename)"
    by (simp add: filename_to_quaternion_valid)
  show "\<forall>name g img. ShapeDataset_getitem lib name_method rgb ds idx = Inr (name, g, img) \<longrightarrow>
         g = tensor_float32 lib
               (SO3_coordinates lib (parsed_quaternion (pyfloat lib) filename) ''Q'' ''MAT'')"
    using a q by (auto simp add: ShapeDataset_getitem_def and_then_Inr_iff Let_def)
  show "(\<exists>r. ShapeDataset_getitem lib name_method rgb ds idx = Inr r) \<longleftrightarrow>
           (\<exists>image. load_image lib (item_path ds filename) = Inr image
              \<and> (\<exists>t. image_channels lib rgb image = Inr t))
           \<and> (\<exists>n. name_method filename = Inr n)"
    using a q by (auto simp add: ShapeDataset_getitem_def and_then_Inr_iff Let_def)
next
  assume a: "py_index file_list idx' = Inr filename' \<and> length (quaternion_texts filename') = 4"
  then have q: "filename_to_quaternion (pyfloat lib) filename'
                  = Inr (parsed_quaternion (pyfloat lib) filename')"
    by (simp add: filename_to_quaternion_valid)
  show "\<forall>name g img. Supervised_getitem lib file_list idx' = Inr (name, g, img) \<longrightarrow>
         g = tensor_float32 lib
               (SO3_coordinates lib (parsed_quaternion (pyfloat lib) filename') ''Q'' ''MAT'')"
    using a q by (auto simp add: Supervised_getitem_def and_then_Inr_iff Let_def)
  show "(\<exists>r. Supervised_getitem lib file_list idx' = Inr r) \<longleftrightarrow>
           (\<exists>image. load_image lib filename' = Inr image)
           \<and> (\<exists>n. filename_to_name filename' = Inr n)"
    using a q by (auto simp add: Supervised_getitem_def and_then_Inr_iff Let_def)
qed


lemma demo_index_path: "path_join ''data/chairs/single'' ''files.txt'' = ''data/chairs/single/files.txt''"
  by code_simp

lemma demo_no_index: "\<not> fs_exists demo_fs (path_join ''data/humanoid'' ''files.txt'')"
  by code_simp

lemma demo_index: "fs_exists demo_fs (path_join ''data/chairs/single'' ''files.txt'')
    \<and> fs_read demo_fs (path_join ''data/chairs/single'' ''files.txt'') = Inr (demo_file @ [CHR 0x0A])"
  by code_simp

lemma demo_lines: "splitlines (demo_file @ [CHR 0x0A]) = [demo_file]"
  by code_simp

lemma demo_glob: "fs_glob demo_fs (path_join ''data/humanoid'' ''**/*.jpg'') = [''data/humanoid/'' @ demo_file]"
  by code_simp

lemma demo_joined: "path_join ''data/chairs/single'' demo_file = ''data/chairs/single/'' @ demo_file"
  by code_simp

theorem ShapeDataset_index_file_or_glob_witness:
  "fs_exists demo_fs (path_join ''data/chairs/single'' ''files.txt'')
   \<and> fs_read demo_fs (path_join ''data/chairs/single'' ''files.txt'') = Inr (demo_file @ [CHR 0x0A])
   \<and> (\<exists>ds. ShapeDataset_init demo_fs ''data/chairs/single'' = Inr ds \<and> files ds = [demo_file]
         \<and> item_path ds demo_file = ''data/chairs/single/'' @ demo_file)
   \<and> \<not> fs_exists demo_fs (path_join ''data/humanoid'' ''files.txt'')
   \<and> (\<exists>ds. ShapeDataset_init demo_fs ''data/humanoid'' = Inr ds
         \<and> files ds = [''data/humanoid/'' @ demo_file]
         \<and> item_path ds (''data/humanoid/'' @ demo_file) = ''data/humanoid/'' @ demo_file)"
proof -
  note indexed = ShapeDataset_index_file_or_glob
    [of demo_fs "''data/chairs/single''" "demo_file @ [CHR 0x0A]", THEN conjunct1, THEN mp, OF demo_index]
  note globbed = ShapeDataset_index_file_or_glob
    [of demo_fs "''data/humanoid''" "[]", THEN conjunct2, THEN mp, OF demo_no_index]
  from indexed obtain ds where ds:
    "ShapeDataset_init demo_fs ''data/chairs/single'' = Inr ds \<and>
     files ds = splitlines (demo_file @ [CHR 0x0A]) \<and>
     (\<forall>filename. item_path ds filename = path_join ''data/chairs/single'' filename)" ..
  have a: "\<exists>ds. ShapeDataset_init demo_fs ''data/chairs/single'' = Inr ds \<and> files ds = [demo_file]
         \<and> item_path ds demo_file = ''data/chairs/single/'' @ demo_file"
  proof (intro exI [of _ ds] conjI)
    show "ShapeDataset_init demo_fs ''data/chairs/single'' = Inr ds"
      by (rule ds [THEN conjunct1])
    show "files ds = [demo_file]"
      using ds [THEN conjunct2, THEN conjunct1] by (simp only: demo_lines)
    show "item_path ds demo_file = ''data/chairs/single/'' @ demo_file"
      using ds [THEN conjunct2, THEN conjunct2, THEN spec, of demo_file] by (simp only: demo_joined)
  qed
  from globbed obtain ds' where ds':
    "ShapeDataset_init demo_fs ''data/humanoid'' = Inr ds' \<and>
     files ds' = fs_glob demo_fs (path_join ''data/humanoid'' ''**/*.jpg'') \<and>
     (\<forall>filename. item_path ds' filename = filename)" ..
  have b: "\<exists>ds. ShapeDataset_init demo_fs ''data/humanoid'' = Inr ds
         \<and> files ds = [''data/humanoid/'' @ demo_file]
         \<and> item_path ds (''data/humanoid/'' @ demo_file) = ''data/humanoid/'' @ demo_file"
  proof (intro exI [of _ ds'] conjI)
    show "ShapeDataset_init demo_fs ''data/humanoid'' = Inr ds'"
      by (rule ds' [THEN conjunct1])
    show "files ds' = [''data/humanoid/'' @ demo_file]"
      using ds' [THEN conjunct2, THEN conjunct1] by (simp only: demo_glob)
    show "item_path ds' (''data/humanoid/'' @ demo_file) = ''data/humanoid/'' @ demo_file"
      by (rule ds' [THEN conjunct2, THEN conjunct2, THEN spec])
  qed
  show ?thesis
    by (intro conjI demo_index [THEN conjunct1] demo_index [THEN conjunct2] a demo_no_index b)
qed

lemma demo_item: "py_index (files demo_dataset) 0 = Inr demo_file
    \<and> length (quaternion_texts demo_file) = 4"
  by code_simp

lemma demo_getitem:
  "ShapeDataset_getitem demo_lib filename_to_name False demo_dataset 0 =
     Inr (''chair'', (''Q'', ''MAT'', [336, - 1523, - 5616, - 8126]),
          ''data/chairs/single/assets/chair.obj_0.0336_-0.1523_-0.5616_-0.8126.jpg.mean(-1).unsqueeze(0)'')"
  by code_simp

lemma demo_supervised_item: "py_index [demo_file] 0 = Inr demo_file
    \<and> length (quaternion_texts demo_file) = 4"
  by code_simp

lemma demo_supervised_getitem:
  "Supervised_getitem demo_lib [demo_file] 0 =
     Inr (''chair'', (''Q'', ''MAT'', [336, - 1523, - 5616, - 8126]),
          ''assets/chair.obj_0.0336_-0.1523_-0.5616_-0.8126.jpg.mean(-1)'')"
  by code_simp

theorem getitem_group_element_witness:
  "py_index (files demo_dataset) 0 = Inr demo_file
   \<and> length (quaternion_texts demo_file) = 4
   \<and> (\<exists>name img. ShapeDataset_getitem demo_lib filename_to_name False demo_dataset 0
          = Inr (name, (''Q'', ''MAT'', [336, - 1523, - 5616, - 8126]), img))
   \<and> tensor_float32 demo_lib
        (SO3_coordinates demo_lib (parsed_quaternion (pyfloat demo_lib) demo_file) ''Q'' ''MAT'')
        = (''Q'', ''MAT'', [336, - 1523, - 5616, - 8126])
   \<and> (\<exists>n. filename_to_name demo_file = Inr n)
   \<and> py_index [demo_file] 0 = Inr demo_file
   \<and> (\<exists>name img. Supervised_getitem demo_lib [demo_file] 0
          = Inr (name, (''Q'', ''MAT'', [336, - 1523, - 5616, - 8126]), img))"
proof -
  note both = getitem_group_element
    [of demo_dataset 0 demo_file demo_lib filename_to_name False "[demo_file]" 0 demo_file]
  note first = both [THEN conjunct1, THEN mp, OF demo_item]
  note second = both [THEN conjunct2, THEN mp, OF demo_supervised_item]
  have g: "(''Q'', ''MAT'', [336, - 1523, - 5616, - 8126]) = tensor_float32 demo_lib
        (SO3_coordinates demo_lib (parsed_quaternion (pyfloat demo_lib) demo_file) ''Q'' ''MAT'')"
    by (rule first [THEN conjunct1, THEN spec, THEN spec, THEN spec, THEN mp, OF demo_getitem])
  have r: "\<exists>r. ShapeDataset_getitem demo_lib filename_to_name False demo_dataset 0 = Inr r"
    by (rule exI, rule demo_getitem)
  have n: "\<exists>n. filename_to_name demo_file = Inr n"
    by (rule iffD1 [OF first [THEN conjunct2] r, THEN conjunct2])
  have e1: "\<exists>name img. ShapeDataset_getitem demo_lib filename_to_name False demo_dataset 0
          = Inr (name, (''Q'', ''MAT'', [336, - 1523, - 5616, - 8126]), img)"
    by (intro exI, rule demo_getitem)
  have e2: "\<exists>name img. Supervised_getitem demo_lib [demo_file] 0
          = Inr (name, (''Q'', ''MAT'', [336, - 1523, - 5616, - 8126]), img)"
    by (intro exI, rule demo_supervised_getitem)
  show ?thesis
    by (intro conjI demo_item [THEN conjunct1] demo_item [THEN conjunct2] e1 g [symmetric] n
        demo_supervised_item [THEN conjunct1] e2)
qed

section \<open>Importing and constructing the dataset: proofs\<close>

lemma import_fails: "import_from datasets_module_names main_imports = Inl (ImportError ''SphereCubeDataset'')"
  by code_simp

lemma names_missing:
  "''SphereCubeDataset'' \<notin> set datasets_module_names \<and> ''ToyDataset'' \<notin> set datasets_module_names"
  by code_simp

lemma subsample_rejected:
  "construct datasets_init_params ''HumanoidDataset'' [''subsample''] = Inl TypeError"
  "construct datasets_init_params ''ColorHumanoidDataset'' [''subsample''] = Inl TypeError"
  "construct datasets_init_params ''SingleChairDataset'' [''subsample''] = Inl TypeError"
  by code_simp+

lemma run_main_import_error: "run_main dataset = Inl (ImportError ''SphereCubeDataset'')"
  by (simp only: run_main_def import_fails and_then_def sum.case)

text \<open>Claim C8: the code at \<open>--dataset humanoid\<close>, \<open>chumanoid\<close> and \<open>single\<close>. The dataset
  selection of \<open>main\<close>, with the classes \<open>datasets.py\<close> defines, raises the \<open>TypeError\<close>
  the claim describes: the constructors do not take the \<open>subsample\<close> keyword. The run of
  \<open>main.py\<close> does not get that far. Its import statement asks \<open>lie_vae.datasets\<close> for
  \<open>SphereCubeDataset\<close> and \<open>ToyDataset\<close>, which \<open>main\<close> uses and \<open>datasets.py\<close> lacks,
  and ends the run with \<open>ImportError\<close>.\<close>

theorem main_humanoid_import_error:
  "main_select_dataset datasets_init_params ''humanoid'' = Inl TypeError
   \<and> main_select_dataset datasets_init_params ''chumanoid'' = Inl TypeError
   \<and> main_select_dataset datasets_init_params ''single'' = Inl TypeError
   \<and> ''SphereCubeDataset'' \<notin> set datasets_module_names
   \<and> ''ToyDataset'' \<notin> set datasets_module_names
   \<and> run_main ''humanoid'' = Inl (ImportError ''SphereCubeDataset'')
   \<and> run_main ''chumanoid'' = Inl (ImportError ''SphereCubeDataset'')
   \<and> run_main ''single'' = Inl (ImportError ''SphereCubeDataset'')"
  by (intro conjI run_main_import_error names_missing [THEN conjunct1]
      names_missing [THEN conjunct2])
    (simp_all add: main_select_dataset_def subsample_rejected)

section \<open>Tensors and networks: proofs\<close>

lemma DeconvNet_shape:
  "sequential_shape (DeconvNet in_dims hidden_dims) [n, in_dims, 1, 1] = Inr [n, 1, 64, 64]"
  by (simp add: DeconvNet_def conv_transpose_side_def)

lemma Encoder_conv_shape:
  "sequential_shape (Encoder_conv id_dims hidden_dims) [n, 1, 64, 64] = Inr [n, 3 + id_dims, 1, 1]"
  by (simp add: Encoder_conv_def conv_side_def Let_def)

lemma sequential_shapes:
  assumes "library_shapes lib"
  shows "well_formed t \<Longrightarrow> sequential_shape ls (shape t) = Inr s \<Longrightarrow>
         \<exists>t'. sequential lib ls t = Inr t' \<and> shape t' = s \<and> well_formed t'"
proof (induction ls arbitrary: t)
  case Nil
  then show ?case by simp
next
  case (Cons l ls)
  from Cons.prems(2) obtain s1 where s1: "layer_shape l (shape t) = Inr s1"
    and rest: "sequential_shape ls s1 = Inr s"
    by (auto simp add: and_then_Inr_iff)
  from assms Cons.prems(1) s1 obtain t1 where
    t1: "apply_layer lib l t = Inr t1" "shape t1 = s1" "well_formed t1"
    unfolding library_shapes_def by blast
  from Cons.IH [OF t1(3)] rest t1(2) obtain t' where
    "sequential lib ls t1 = Inr t'" "shape t' = s" "well_formed t'" by auto
  then show ?case using t1 by simp
qed



lemma lib_randn:
  "library_shapes lib \<Longrightarrow> shape (randn lib s) = s \<and> well_formed (randn lib s)"
  by (simp add: library_shapes_def)

lemma lib_layer:
  "library_shapes lib \<Longrightarrow> well_formed t \<Longrightarrow> layer_shape l (shape t) = Inr s \<Longrightarrow>
   \<exists>t'. apply_layer lib l t = Inr t' \<and> shape t' = s \<and> well_formed t'"
  by (simp add: library_shapes_def)

lemma lib_mlp:
  "library_shapes lib \<Longrightarrow> well_formed x \<Longrightarrow> shape x = [n, mlp_in spec] \<Longrightarrow>
   \<exists>y. apply_mlp lib spec x = Inr y \<and> shape y = [n, mlp_out spec] \<and> well_formed y"
  by (simp add: library_shapes_def)

lemma lib_lie_tools:
  "library_shapes lib \<Longrightarrow> well_formed r \<Longrightarrow> shape r = [n, 3, 3] \<Longrightarrow>
   shape (group_matrix_to_eazyz lib r) = [n, 3]
   \<and> well_formed (group_matrix_to_eazyz lib r)
   \<and> shape (group_matrix_to_quaternions lib r) = [n, 4]
   \<and> well_formed (group_matrix_to_quaternions lib r)"
  by (simp add: library_shapes_def)

lemma lib_wigner:
  "library_shapes lib \<Longrightarrow> well_formed h \<Longrightarrow>
   shape (block_wigner_matrix_multiply lib angles h d) = shape h
   \<and> well_formed (block_wigner_matrix_multiply lib angles h d)"
  by (simp add: library_shapes_def)


lemma select_channel0_shape:
  "shape t = [n, c, h, w] \<Longrightarrow> 0 < c \<Longrightarrow> \<exists>out. select_channel0 t = Inr out \<and> shape out = [n, h, w]"
  by (simp add: select_channel0_def)

lemma ActionNet_init_fields:
  "an_degrees (ActionNet_init lib degrees deconv id_dims data_dims single_id k) = degrees"
  "an_data_dims (ActionNet_init lib degrees deconv id_dims data_dims single_id k) = data_dims"
  "an_matrix_dims (ActionNet_init lib degrees deconv id_dims data_dims single_id k) = (degrees + 1) ^ 2"
  "an_deconv (ActionNet_init lib degrees deconv id_dims data_dims single_id k) = deconv"
  "an_item_rep (ActionNet_init lib degrees deconv id_dims data_dims single_id k)
     = (if single_id then Some (randn lib [(degrees + 1) ^ 2, data_dims]) else None)"
  "an_harmonics_encoder (ActionNet_init lib degrees deconv id_dims data_dims single_id k)
     = (if single_id then None
        else Some \<lparr>mlp_in = id_dims, mlp_out = (degrees + 1) ^ 2 * data_dims, mlp_hidden = 50,
                   mlp_layers = k\<rparr>)"
  by (simp_all add: ActionNet_init_def Let_def)

lemma expand_batch_shape:
  "well_formed t \<Longrightarrow> shape (expand_batch t n) = n # shape t \<and> well_formed (expand_batch t n)"
  by (simp add: expand_batch_def well_formed_def length_concat sum_list_replicate)

lemma unsqueeze2_shape:
  "well_formed t \<Longrightarrow> shape (unsqueeze2 t) = shape t @ [1, 1] \<and> well_formed (unsqueeze2 t)"
  by (simp add: unsqueeze2_def well_formed_def)


lemma ActionNet_harmonics_shape:
  assumes lib: "library_shapes lib"
    and idd: "id_data_for single_id id_dims n id_data"
  shows "\<exists>h. ActionNet_harmonics lib
                (ActionNet_init lib degrees deconv id_dims data_dims single_id k) n id_data = Inr h
             \<and> shape h = [n, (degrees + 1) ^ 2, data_dims] \<and> well_formed h"
proof (cases id_data)
  case None
  with idd have single: single_id by (simp add: id_data_for_def)
  note r = lib_randn [OF lib, of "[(degrees + 1) ^ 2, data_dims]"]
  note e = expand_batch_shape [OF r [THEN conjunct2], of n]
  have "ActionNet_harmonics lib
          (ActionNet_init lib degrees deconv id_dims data_dims single_id k) n id_data
        = Inr (expand_batch (randn lib [(degrees + 1) ^ 2, data_dims]) n)"
    using None single by (simp add: ActionNet_harmonics_def ActionNet_init_fields)
  moreover have "shape (expand_batch (randn lib [(degrees + 1) ^ 2, data_dims]) n)
        = [n, (degrees + 1) ^ 2, data_dims]"
    using e r by simp
  ultimately show ?thesis using e by blast
next
  case (Some d)
  with idd have d: "\<not> single_id" "well_formed d" "shape d = [n, id_dims]"
    by (simp_all add: id_data_for_def)
  define spec where "spec = \<lparr>mlp_in = id_dims, mlp_out = (degrees + 1) ^ 2 * data_dims,
     mlp_hidden = 50, mlp_layers = k\<rparr>"
  have sp: "mlp_in spec = id_dims" "mlp_out spec = (degrees + 1) ^ 2 * data_dims"
    by (simp_all add: spec_def)
  have "shape d = [n, mlp_in spec]" using d sp by simp
  from lib_mlp [OF lib d(2) this] obtain y where
    y: "apply_mlp lib spec d = Inr y" "shape y = [n, mlp_out spec]" "well_formed y" by blast
  have len: "length (elems y) = n * ((degrees + 1) ^ 2 * data_dims)"
    using y sp by (simp add: well_formed_def)
  have enc: "an_harmonics_encoder (ActionNet_init lib degrees deconv id_dims data_dims single_id k)
               = Some spec"
    using d(1) by (simp add: ActionNet_init_fields spec_def)
  have "ActionNet_harmonics lib
          (ActionNet_init lib degrees deconv id_dims data_dims single_id k) n id_data
        = Inr \<lparr>shape = [n, (degrees + 1) ^ 2, data_dims], elems = elems y\<rparr>"
    using Some y(1) len
    by (simp add: ActionNet_harmonics_def enc ActionNet_init_fields(2,3) view_as_def)
  moreover have "well_formed \<lparr>shape = [n, (degrees + 1) ^ 2, data_dims], elems = elems y\<rparr>"
    using len by (simp add: well_formed_def)
  ultimately show ?thesis by simp
qed


lemma view_rows_flat:
  "0 < k \<Longrightarrow> length (elems t) = n * k \<Longrightarrow> view_rows t k = Inr \<lparr>shape = [n, k], elems = elems t\<rparr>"
  by (simp add: view_rows_def)

lemma ActionNet_item_flattens:
  assumes lib: "library_shapes lib"
    and h: "well_formed h" "shape h = [n, an_matrix_dims net, an_data_dims net]"
    and pos: "0 < an_matrix_dims net * an_data_dims net"
  shows "ActionNet_item lib net matrices h =
           Inr \<lparr>shape = [n, an_matrix_dims net * an_data_dims net],
                elems = elems (block_wigner_matrix_multiply lib (group_matrix_to_eazyz lib matrices)
                                 h (an_degrees net))\<rparr>"
proof -
  define b where "b = block_wigner_matrix_multiply lib (group_matrix_to_eazyz lib matrices) h (an_degrees net)"
  have "shape b = shape h \<and> well_formed b"
    unfolding b_def by (rule lib_wigner [OF lib h(1)])
  then have len: "length (elems b) = n * (an_matrix_dims net * an_data_dims net)"
    using h(2) by (simp add: well_formed_def)
  have "ActionNet_item lib net matrices h = view_rows b (an_matrix_dims net * an_data_dims net)"
    by (simp add: ActionNet_item_def Let_def b_def)
  also have "\<dots> = Inr \<lparr>shape = [n, an_matrix_dims net * an_data_dims net], elems = elems b\<rparr>"
    by (rule view_rows_flat [OF pos len])
  finally show ?thesis by (simp only: b_def)
qed

lemma ActionNet_forward_unfolded:
  assumes lib: "library_shapes lib" and m: "shape matrices = [n, 3, 3]" and pos: "0 < data_dims"
    and idd: "id_data_for single_id id_dims n id_data"
    and net: "net = ActionNet_init lib degrees deconv id_dims data_dims single_id k"
  shows "\<exists>harmonics.
      ActionNet_harmonics lib net n id_data = Inr harmonics
      \<and> shape harmonics = [n, (degrees + 1) ^ 2, data_dims]
      \<and> length (elems (block_wigner_matrix_multiply lib
                         (group_matrix_to_eazyz lib matrices) harmonics degrees))
          = n * ((degrees + 1) ^ 2 * data_dims)
      \<and> ActionNet_forward lib net matrices id_data =
          and_then
            (sequential lib deconv
               \<lparr>shape = [n, (degrees + 1) ^ 2 * data_dims, 1, 1],
                elems = elems (block_wigner_matrix_multiply lib
                                 (group_matrix_to_eazyz lib matrices) harmonics degrees)\<rparr>)
            select_channel0"
proof -
  from ActionNet_harmonics_shape [OF lib idd, of degrees deconv data_dims k] obtain h where
    h: "ActionNet_harmonics lib net n id_data = Inr h"
       "shape h = [n, (degrees + 1) ^ 2, data_dims]" "well_formed h"
    unfolding net by blast
  have f: "an_matrix_dims net = (degrees + 1) ^ 2" "an_data_dims net = data_dims"
    "an_degrees net = degrees" "an_deconv net = deconv"
    by (simp_all add: net ActionNet_init_fields)
  have h': "shape h = [n, an_matrix_dims net, an_data_dims net]" using h(2) f by simp
  have pos': "0 < an_matrix_dims net * an_data_dims net" using pos f by simp
  note item = ActionNet_item_flattens [OF lib h(3) h' pos', of matrices]
  have len: "length (elems (block_wigner_matrix_multiply lib
                         (group_matrix_to_eazyz lib matrices) h degrees))
          = n * ((degrees + 1) ^ 2 * data_dims)"
    using lib_wigner [OF lib h(3), of "group_matrix_to_eazyz lib matrices" degrees] h(2)
    by (simp add: well_formed_def)
  have asrt: "((id_data \<noteq> None) = (an_item_rep net \<noteq> None)) = False"
    using idd by (cases id_data) (simp_all add: id_data_for_def net ActionNet_init_fields)
  have body: "ActionNet_forward lib net matrices id_data =
        and_then (size0 matrices) (\<lambda>n.
        and_then (ActionNet_harmonics lib net n id_data) (\<lambda>harmonics.
        and_then (ActionNet_item lib net matrices harmonics) (\<lambda>item.
        and_then (sequential lib (an_deconv net) (unsqueeze2 item)) (\<lambda>out.
          select_channel0 out))))"
    unfolding ActionNet_forward_def by (simp only: asrt if_False)
  have s0: "size0 matrices = Inr n" using m by (simp add: size0_def)
  have "ActionNet_forward lib net matrices id_data =
          and_then
            (sequential lib deconv
               \<lparr>shape = [n, (degrees + 1) ^ 2 * data_dims, 1, 1],
                elems = elems (block_wigner_matrix_multiply lib
                                 (group_matrix_to_eazyz lib matrices) h degrees)\<rparr>)
            select_channel0"
    unfolding body by (simp add: s0 h(1) item f unsqueeze2_def)
  with h len show ?thesis by blast
qed

lemma ActionNet_forward_shape:
  assumes lib: "library_shapes lib" and m: "shape matrices = [n, 3, 3]" and pos: "0 < data_dims"
    and idd: "id_data_for single_id id_dims n id_data"
  shows "\<exists>out. ActionNet_forward lib
            (ActionNet_init lib degrees (DeconvNet ((degrees + 1) ^ 2 * data_dims) hidden_dims)
               id_dims data_dims single_id k) matrices id_data = Inr out
          \<and> shape out = [n, 64, 64]"
proof -
  define deconv where "deconv = DeconvNet ((degrees + 1) ^ 2 * data_dims) hidden_dims"
  define net where "net = ActionNet_init lib degrees deconv id_dims data_dims single_id k"
  from ActionNet_forward_unfolded [OF lib m pos idd net_def] obtain h where
    len: "length (elems (block_wigner_matrix_multiply lib
                         (group_matrix_to_eazyz lib matrices) h degrees))
          = n * ((degrees + 1) ^ 2 * data_dims)"
    and fw: "ActionNet_forward lib net matrices id_data =
          and_then
            (sequential lib deconv
               \<lparr>shape = [n, (degrees + 1) ^ 2 * data_dims, 1, 1],
                elems = elems (block_wigner_matrix_multiply lib
                                 (group_matrix_to_eazyz lib matrices) h degrees)\<rparr>)
            select_channel0"
    by blast
  define signal where "signal = \<lparr>shape = [n, (degrees + 1) ^ 2 * data_dims, 1, 1],
                elems = elems (block_wigner_matrix_multiply lib
                                 (group_matrix_to_eazyz lib matrices) h degrees)\<rparr>"
  have wf: "well_formed signal" using len by (simp add: signal_def well_formed_def)
  have sh: "sequential_shape deconv (shape signal) = Inr [n, 1, 64, 64]"
    using DeconvNet_shape [of "(degrees + 1) ^ 2 * data_dims" hidden_dims n]
    by (simp add: signal_def deconv_def)
  from sequential_shapes [OF lib wf sh] obtain t' where
    t': "sequential lib deconv signal = Inr t'" "shape t' = [n, 1, 64, 64]" by blast
  from select_channel0_shape [OF t'(2)] obtain out where
    out: "select_channel0 t' = Inr out" "shape out = [n, 64, 64]" by auto
  have "ActionNet_forward lib net matrices id_data = Inr out"
    unfolding fw signal_def [symmetric] by (simp add: t'(1) out(1))
  then show ?thesis using out(2) unfolding net_def deconv_def by blast
qed


lemma MLPNet_init_Inr:
  "MLPNet_init degrees deconv data_dims mode id_dims single_id = Inr net \<longleftrightarrow>
     mode \<in> {''MAT'', ''Q'', ''EA''}
     \<and> net = \<lparr>mn_mode = mode,
               mn_mlp = \<lparr>mlp_in = base_dims mode + (if single_id then 0 else id_dims),
                         mlp_out = (degrees + 1) ^ 2 * data_dims, mlp_hidden = 50, mlp_layers = 3\<rparr>,
               mn_deconv = deconv, mn_single_id = single_id\<rparr>"
  by (auto simp add: MLPNet_init_def base_dims_def Let_def)

lemma MLPNet_init_KeyError:
  "mode \<notin> {''MAT'', ''Q'', ''EA''} \<Longrightarrow>
   MLPNet_init degrees deconv data_dims mode id_dims single_id = Inl (KeyError mode)"
  by (simp add: MLPNet_init_def Let_def)

lemma MLPNet_features_shape:
  assumes lib: "library_shapes lib" and r: "well_formed r" "shape r = [n, 3, 3]"
  shows "\<exists>x. MLPNet_rotation_features lib net r = Inr x
            \<and> shape x = [n, base_dims (mn_mode net)] \<and> well_formed x"
proof -
  have len: "length (elems r) = n * 9" using r by (simp add: well_formed_def)
  note lt = lib_lie_tools [OF lib r]
  show ?thesis
  proof (cases "mn_mode net = ''MAT''")
    case True
    then have "MLPNet_rotation_features lib net r = Inr \<lparr>shape = [n, 9], elems = elems r\<rparr>"
      using view_rows_flat [of 9 r n] len by (simp add: MLPNet_rotation_features_def)
    then show ?thesis using True len by (simp add: base_dims_def well_formed_def)
  next
    case False
    then show ?thesis using lt
      by (simp add: MLPNet_rotation_features_def base_dims_def)
  qed
qed


lemma length_row:
  assumes "length xs = n * a" "i < n"
  shows "length (take a (drop (i * a) xs)) = a"
proof -
  have "Suc i \<le> n" using assms(2) by simp
  then have "Suc i * a \<le> n * a" by (rule mult_le_mono1)
  then have "a \<le> n * a - i * a" by simp
  then show ?thesis using assms(1) by simp
qed

lemma cat1_shape:
  assumes x: "well_formed x" "shape x = [n, a]" and y: "well_formed y" "shape y = [n, b]"
  shows "\<exists>z. cat1 x y = Inr z \<and> shape z = [n, a + b] \<and> well_formed z"
proof -
  define rows where "rows = map (\<lambda>i. take a (drop (i * a) (elems x)) @ take b (drop (i * b) (elems y))) [0..<n]"
  have lx: "length (elems x) = n * a" and ly: "length (elems y) = n * b"
    using x y by (simp_all add: well_formed_def)
  have row: "length (take a (drop (i * a) (elems x)) @ take b (drop (i * b) (elems y))) = a + b"
    if "i < n" for i
    using length_row [OF lx that] length_row [OF ly that] by (simp only: length_append)
  have "map length rows = map (\<lambda>i. a + b) [0..<n]"
    unfolding rows_def map_map comp_def by (rule map_cong [OF refl]) (simp only: row atLeastLessThan_iff set_upt)
  then have "length (concat rows) = n * (a + b)"
    by (simp add: length_concat sum_list_triv del: map_eq_conv)
  moreover have "cat1 x y = Inr \<lparr>shape = [n, a + b], elems = concat rows\<rparr>"
    using x(2) y(2) by (simp add: cat1_def rows_def)
  ultimately show ?thesis by (simp add: well_formed_def)
qed

lemma MLPNet_input_shape:
  assumes x: "well_formed x" "shape x = [n, a]"
    and idd: "id_data_for single_id id_dims n id_data"
  shows "\<exists>z. MLPNet_input n x id_data = Inr z
            \<and> shape z = [n, a + (if single_id then 0 else id_dims)] \<and> well_formed z"
proof (cases id_data)
  case None
  with idd have single_id by (simp add: id_data_for_def)
  then show ?thesis using None x by (simp add: MLPNet_input_def)
next
  case (Some d)
  with idd have d: "\<not> single_id" "0 < n" "well_formed d" "shape d = [n, id_dims]"
    by (simp_all add: id_data_for_def)
  have len: "length (elems d) = n * id_dims" using d by (simp add: well_formed_def)
  have v: "view_cols d n = Inr \<lparr>shape = [n, id_dims], elems = elems d\<rparr>"
    using d(2) len by (simp add: view_cols_def)
  have "well_formed \<lparr>shape = [n, id_dims], elems = elems d\<rparr>"
    using len by (simp add: well_formed_def)
  from cat1_shape [OF x this, of id_dims] obtain z where
    "cat1 x \<lparr>shape = [n, id_dims], elems = elems d\<rparr> = Inr z" "shape z = [n, a + id_dims]" "well_formed z"
    by auto
  then show ?thesis using Some d(1) v by (simp add: MLPNet_input_def)
qed


lemma MLPNet_forward_shape:
  assumes lib: "library_shapes lib" and r: "well_formed r" "shape r = [n, 3, 3]"
    and idd: "id_data_for single_id id_dims n id_data"
    and init: "MLPNet_init degrees (DeconvNet ((degrees + 1) ^ 2 * data_dims) hidden_dims)
                 data_dims mode id_dims single_id = Inr net"
  shows "\<exists>out. MLPNet_forward lib net r id_data = Inr out \<and> shape out = [n, 64, 64]"
proof -
  from init have net: "mn_mode net = mode" "mn_single_id net = single_id"
    "mn_deconv net = DeconvNet ((degrees + 1) ^ 2 * data_dims) hidden_dims"
    "mlp_in (mn_mlp net) = base_dims mode + (if single_id then 0 else id_dims)"
    "mlp_out (mn_mlp net) = (degrees + 1) ^ 2 * data_dims"
    by (simp_all add: MLPNet_init_Inr)
  have asrt: "((id_data = None) = (\<not> mn_single_id net)) = False"
    using idd by (cases id_data) (simp_all add: id_data_for_def net)
  have body: "MLPNet_forward lib net r id_data =
        and_then (size0 r) (\<lambda>n.
        and_then (MLPNet_rotation_features lib net r) (\<lambda>x.
        and_then (MLPNet_input n x id_data) (\<lambda>x.
        and_then (apply_mlp lib (mn_mlp net) x) (\<lambda>x.
        and_then (sequential lib (mn_deconv net) (unsqueeze2 x)) (\<lambda>out.
          select_channel0 out)))))"
    unfolding MLPNet_forward_def by (simp only: asrt if_False)
  have s0: "size0 r = Inr n" using r by (simp add: size0_def)
  from MLPNet_features_shape [OF lib r, of net] obtain x where
    x: "MLPNet_rotation_features lib net r = Inr x" "shape x = [n, base_dims mode]" "well_formed x"
    unfolding net by blast
  from MLPNet_input_shape [OF x(3) x(2) idd] obtain z where
    z: "MLPNet_input n x id_data = Inr z"
       "shape z = [n, base_dims mode + (if single_id then 0 else id_dims)]" "well_formed z"
    by blast
  have "shape z = [n, mlp_in (mn_mlp net)]" using z(2) net(4) by simp
  from lib_mlp [OF lib z(3) this] obtain y where
    y: "apply_mlp lib (mn_mlp net) z = Inr y" "shape y = [n, mlp_out (mn_mlp net)]" "well_formed y"
    by blast
  have u: "shape (unsqueeze2 y) = [n, (degrees + 1) ^ 2 * data_dims, 1, 1]" "well_formed (unsqueeze2 y)"
    using unsqueeze2_shape [OF y(3)] y(2) net(5) by simp_all
  have sh: "sequential_shape (mn_deconv net) (shape (unsqueeze2 y)) = Inr [n, 1, 64, 64]"
    using DeconvNet_shape [of "(degrees + 1) ^ 2 * data_dims" hidden_dims n]
    by (simp only: u(1) net(3))
  from sequential_shapes [OF lib u(2) sh] obtain t' where
    t': "sequential lib (mn_deconv net) (unsqueeze2 y) = Inr t'" "shape t' = [n, 1, 64, 64]" by blast
  from select_channel0_shape [OF t'(2)] obtain out where
    out: "select_channel0 t' = Inr out" "shape out = [n, 64, 64]" by auto
  have "MLPNet_forward lib net r id_data = Inr out"
    unfolding body by (simp add: s0 x(1) z(1) y(1) t'(1) out(1))
  then show ?thesis using out(2) by blast
qed

lemma demo_torch_shapes: "library_shapes demo_torch"
  unfolding library_shapes_def
proof (intro conjI allI impI)
  fix s
  show "shape (randn demo_torch s) = s" by (simp add: demo_torch_def filled_def)
  show "well_formed (randn demo_torch s)" by (simp add: demo_torch_def filled_def well_formed_def)
next
  fix l and t :: "int tensor" and s
  assume "well_formed t \<and> layer_shape l (shape t) = Inr s"
  then show "\<exists>t'. apply_layer demo_torch l t = Inr t' \<and> shape t' = s \<and> well_formed t'"
    by (simp add: demo_torch_def filled_def well_formed_def)
next
  fix spec :: mlp_spec and x :: "int tensor" and n
  assume "well_formed x \<and> shape x = [n, mlp_in spec]"
  then show "\<exists>y. apply_mlp demo_torch spec x = Inr y \<and> shape y = [n, mlp_out spec] \<and> well_formed y"
    by (simp add: demo_torch_def filled_def well_formed_def)
next
  fix r :: "int tensor" and n
  assume a: "well_formed r \<and> shape r = [n, 3, 3]"
  then show "shape (group_matrix_to_eazyz demo_torch r) = [n, 3]"
    "well_formed (group_matrix_to_eazyz demo_torch r)"
    "shape (group_matrix_to_quaternions demo_torch r) = [n, 4]"
    "well_formed (group_matrix_to_quaternions demo_torch r)"
    by (simp_all add: demo_torch_def filled_def well_formed_def)
next
  fix angles h :: "int tensor" and d
  assume "well_formed h"
  then show "shape (block_wigner_matrix_multiply demo_torch angles h d) = shape h"
    "well_formed (block_wigner_matrix_multiply demo_torch angles h d)"
    by (simp_all add: demo_torch_def)
qed


text \<open>Claim C1. For a batch of \<open>n\<close> rotation matrices (shape \<open>[n, 3, 3]\<close>),
  \<open>ActionNet.forward\<close> converts the matrices to ZYZ Euler angles with
  \<open>group_matrix_to_eazyz\<close>, applies \<open>block_wigner_matrix_multiply\<close> with these angles to
  the harmonics at the configured number of degrees, and hands the result, viewed as
  \<open>n\<close> rows of \<open>(degrees + 1)\<^sup>2 * data_dims\<close> features (with two axes of size 1
  appended), to the deconvolutional network, of whose output it returns channel 0.\<close>

theorem ActionNet_forward_signal:
  "library_shapes lib \<and> shape matrices = [n, 3, 3] \<and> 0 < data_dims
   \<and> id_data_for single_id id_dims n id_data
   \<and> net = ActionNet_init lib degrees deconv id_dims data_dims single_id k \<longrightarrow>
   (\<exists>harmonics.
      ActionNet_harmonics lib net n id_data = Inr harmonics
      \<and> shape harmonics = [n, (degrees + 1) ^ 2, data_dims]
      \<and> ActionNet_forward lib net matrices id_data =
          and_then
            (sequential lib deconv
               \<lparr>shape = [n, (degrees + 1) ^ 2 * data_dims, 1, 1],
                elems = elems (block_wigner_matrix_multiply lib
                                 (group_matrix_to_eazyz lib matrices) harmonics degrees)\<rparr>)
            select_channel0)"
proof
  assume a: "library_shapes lib \<and> shape matrices = [n, 3, 3] \<and> 0 < data_dims
   \<and> id_data_for single_id id_dims n id_data
   \<and> net = ActionNet_init lib degrees deconv id_dims data_dims single_id k"
  then have lib: "library_shapes lib" and m: "shape matrices = [n, 3, 3]" and pos: "0 < data_dims"
    and idd: "id_data_for single_id id_dims n id_data"
    and net: "net = ActionNet_init lib degrees deconv id_dims data_dims single_id k"
    by simp_all
  from ActionNet_forward_unfolded [OF lib m pos idd net]
  show "\<exists>harmonics.
      ActionNet_harmonics lib net n id_data = Inr harmonics
      \<and> shape harmonics = [n, (degrees + 1) ^ 2, data_dims]
      \<and> ActionNet_forward lib net matrices id_data =
          and_then
            (sequential lib deconv
               \<lparr>shape = [n, (degrees + 1) ^ 2 * data_dims, 1, 1],
                elems = elems (block_wigner_matrix_multiply lib
                                 (group_matrix_to_eazyz lib matrices) harmonics degrees)\<rparr>)
            select_channel0"
    by blast
qed

lemma demo_matrices_shape: "well_formed demo_matrices \<and> shape demo_matrices = [2, 3, 3]"
  by (simp add: demo_matrices_def well_formed_def)

lemma demo_single_id: "id_data_for True 10 2 (None :: int tensor option)"
  by (simp add: id_data_for_def)

theorem ActionNet_forward_signal_witness:
  "library_shapes demo_torch \<and> shape demo_matrices = [2, 3, 3]
   \<and> id_data_for True 10 2 (None :: int tensor option)
   \<and> (\<exists>harmonics.
        ActionNet_harmonics demo_torch
          (ActionNet_init demo_torch 1 (DeconvNet 8 5) 10 2 True 3) 2 None = Inr harmonics
        \<and> shape harmonics = [2, (1 + 1) ^ 2, 2]
        \<and> ActionNet_forward demo_torch
             (ActionNet_init demo_torch 1 (DeconvNet 8 5) 10 2 True 3) demo_matrices None =
            and_then
              (sequential demo_torch (DeconvNet 8 5)
                 \<lparr>shape = [2, (1 + 1) ^ 2 * 2, 1, 1],
                  elems = elems (block_wigner_matrix_multiply demo_torch
                                   (group_matrix_to_eazyz demo_torch demo_matrices) harmonics 1)\<rparr>)
              select_channel0)"
proof -
  have hyp: "library_shapes demo_torch \<and> shape demo_matrices = [2, 3, 3] \<and> (0::nat) < 2
     \<and> id_data_for True 10 2 (None :: int tensor option)
     \<and> ActionNet_init demo_torch 1 (DeconvNet 8 5) 10 2 True 3
         = ActionNet_init demo_torch 1 (DeconvNet 8 5) 10 2 True 3"
    using demo_torch_shapes demo_matrices_shape demo_single_id by simp
  note concl = ActionNet_forward_signal
    [of demo_torch demo_matrices 2 2 True 10 None
        "ActionNet_init demo_torch 1 (DeconvNet 8 5) 10 2 True 3" 1 "DeconvNet 8 5" 3,
     THEN mp, OF hyp]
  show ?thesis
    by (intro conjI demo_torch_shapes demo_matrices_shape [THEN conjunct2] demo_single_id concl)
qed


text \<open>Claim C6. \<open>DeconvNet\<close> takes an input of shape \<open>[n, in_dims, 1, 1]\<close> through its five
  transposed convolutions to the shape \<open>[n, 1, 64, 64]\<close>; the convolutional stack of the
  encoder takes \<open>[n, 1, 64, 64]\<close> to \<open>[n, 3 + id_dims, 1, 1]\<close>; and \<open>ActionNet\<close> and
  \<open>MLPNet\<close>, built as \<open>main\<close> builds them, with
  \<open>DeconvNet((degrees + 1)\<^sup>2 * data_dims, hidden)\<close>, return a tensor of
  shape \<open>[n, 64, 64]\<close> for every batch of \<open>n\<close> rotation matrices.\<close>

theorem DeconvNet_output_64:
  "sequential_shape (DeconvNet in_dims hidden_dims) [n, in_dims, 1, 1] = Inr [n, 1, 64, 64]
   \<and> sequential_shape (Encoder_conv enc_id_dims enc_hidden_dims) [n, 1, 64, 64]
       = Inr [n, 3 + enc_id_dims, 1, 1]
   \<and> (library_shapes lib \<and> well_formed r \<and> shape r = [n, 3, 3] \<and> 0 < data_dims
       \<and> id_data_for single_id id_dims n id_data \<longrightarrow>
       (\<exists>out. ActionNet_forward lib
                 (ActionNet_init lib degrees (DeconvNet ((degrees + 1) ^ 2 * data_dims) hidden_dims)
                    id_dims data_dims single_id k) r id_data = Inr out
              \<and> shape out = [n, 64, 64])
       \<and> (\<forall>net. MLPNet_init degrees (DeconvNet ((degrees + 1) ^ 2 * data_dims) hidden_dims)
                    data_dims mode id_dims single_id = Inr net \<longrightarrow>
              (\<exists>out. MLPNet_forward lib net r id_data = Inr out \<and> shape out = [n, 64, 64])))"
proof (intro conjI impI allI)
  show "sequential_shape (DeconvNet in_dims hidden_dims) [n, in_dims, 1, 1] = Inr [n, 1, 64, 64]"
    by (rule DeconvNet_shape)
  show "sequential_shape (Encoder_conv enc_id_dims enc_hidden_dims) [n, 1, 64, 64]
       = Inr [n, 3 + enc_id_dims, 1, 1]"
    by (rule Encoder_conv_shape)
next
  assume a: "library_shapes lib \<and> well_formed r \<and> shape r = [n, 3, 3] \<and> 0 < data_dims
       \<and> id_data_for single_id id_dims n id_data"
  then have lib: "library_shapes lib" and r: "well_formed r" "shape r = [n, 3, 3]"
    and pos: "0 < data_dims" and idd: "id_data_for single_id id_dims n id_data"
    by simp_all
  show "\<exists>out. ActionNet_forward lib
                 (ActionNet_init lib degrees (DeconvNet ((degrees + 1) ^ 2 * data_dims) hidden_dims)
                    id_dims data_dims single_id k) r id_data = Inr out
              \<and> shape out = [n, 64, 64]"
    by (rule ActionNet_forward_shape [OF lib r(2) pos idd])
next
  fix net
  assume a: "library_shapes lib \<and> well_formed r \<and> shape r = [n, 3, 3] \<and> 0 < data_dims
       \<and> id_data_for single_id id_dims n id_data"
    and init: "MLPNet_init degrees (DeconvNet ((degrees + 1) ^ 2 * data_dims) hidden_dims)
                    data_dims mode id_dims single_id = Inr net"
  from a have lib: "library_shapes lib" and r: "well_formed r" "shape r = [n, 3, 3]"
    and idd: "id_data_for single_id id_dims n id_data"
    by simp_all
  show "\<exists>out. MLPNet_forward lib net r id_data = Inr out \<and> shape out = [n, 64, 64]"
    by (rule MLPNet_forward_shape [OF lib r idd init])
qed

lemma demo_MLPNet_init:
  "MLPNet_init 1 (DeconvNet ((1 + 1) ^ 2 * 2) 5) 2 ''MAT'' 10 True =
     Inr \<lparr>mn_mode = ''MAT'',
          mn_mlp = \<lparr>mlp_in = 9, mlp_out = 8, mlp_hidden = 50, mlp_layers = 3\<rparr>,
          mn_deconv = DeconvNet ((1 + 1) ^ 2 * 2) 5, mn_single_id = True\<rparr>"
  by (simp add: MLPNet_init_def Let_def power2_eq_square)

theorem DeconvNet_output_64_witness:
  "library_shapes demo_torch \<and> well_formed demo_matrices \<and> shape demo_matrices = [2, 3, 3]
   \<and> id_data_for True 10 2 (None :: int tensor option)
   \<and> (\<exists>out. ActionNet_forward demo_torch
               (ActionNet_init demo_torch 1 (DeconvNet ((1 + 1) ^ 2 * 2) 5) 10 2 True 3)
               demo_matrices None = Inr out
            \<and> shape out = [2, 64, 64])
   \<and> (\<exists>net. MLPNet_init 1 (DeconvNet ((1 + 1) ^ 2 * 2) 5) 2 ''MAT'' 10 True = Inr net
          \<and> (\<exists>out. MLPNet_forward demo_torch net demo_matrices None = Inr out
                 \<and> shape out = [2, 64, 64]))"
proof -
  have hyp: "library_shapes demo_torch \<and> well_formed demo_matrices
     \<and> shape demo_matrices = [2, 3, 3] \<and> (0::nat) < 2
     \<and> id_data_for True 10 2 (None :: int tensor option)"
    using demo_torch_shapes demo_matrices_shape demo_single_id by simp
  note concl = DeconvNet_output_64
    [where lib = demo_torch and r = demo_matrices and n = 2 and data_dims = 2
       and single_id = True and id_dims = 10 and id_data = None and degrees = 1
       and hidden_dims = 5 and k = 3 and mode = "''MAT''" and in_dims = 8
       and enc_id_dims = 0 and enc_hidden_dims = 50,
     THEN conjunct2, THEN conjunct2, THEN mp, OF hyp]
  have m: "\<exists>net. MLPNet_init 1 (DeconvNet ((1 + 1) ^ 2 * 2) 5) 2 ''MAT'' 10 True = Inr net
          \<and> (\<exists>out. MLPNet_forward demo_torch net demo_matrices None = Inr out
                 \<and> shape out = [2, 64, 64])"
    by (rule exI, rule conjI, rule demo_MLPNet_init,
        rule concl [THEN conjunct2, THEN spec, THEN mp, OF demo_MLPNet_init])
  show ?thesis
    by (intro conjI demo_torch_shapes demo_matrices_shape [THEN conjunct1]
        demo_matrices_shape [THEN conjunct2] demo_single_id concl [THEN conjunct1] m)
qed





section \<open>The experiment and what it is given for its loss: proofs\<close>








end
